theory Spec2Isabelle
  imports Main "HOL-Library.Signed_Division"
begin

section \<open>Vertex orientation of H3 cells (\<^verbatim>\<open>src/h3lib/lib/vertex.c\<close>)\<close>

text \<open>
  The file \<^verbatim>\<open>vertex.c\<close> holds one static table and two functions:
  \<^verbatim>\<open>vertexRotations\<close>, the number of counter-clockwise 60 degree rotations of a cell's
  vertex numbering, and \<^verbatim>\<open>vertexNumForDirection\<close>, the first vertex of the edge a cell
  shares with its neighbour in a given direction. Both are embedded here as HOL functions.
  C \<^verbatim>\<open>int\<close> values are modelled as \<^typ>\<open>int\<close>: every intermediate value of the two
  functions lies between \<open>-1\<close> and \<open>11\<close>, so no operation wraps around. The C remainder
  operator \<^verbatim>\<open>%\<close> truncates towards zero and is modelled by \<^term>\<open>(smod)\<close>.
\<close>

subsection \<open>Constants and types of the headers\<close>

text \<open>
  Modelled from the spec: the headers \<^verbatim>\<open>vertex.h\<close>, \<^verbatim>\<open>baseCells.h\<close>, \<^verbatim>\<open>constants.h\<close> and
  \<^verbatim>\<open>coordijk.h\<close> are not among the sources. The spec gives 122 base units with at most 5
  face slots each, hexagons with 6 and pentagons with 5 vertices, and two canonical
  tables of 7 entries indexed by the ordinal of the direction. The ordinals
  of the directions are those the source itself relies on: its comments call the centre
  direction 0 and the deleted K axis direction 1, the pentagon rows of the table start at
  \<^verbatim>\<open>J_AXES_DIGIT\<close> and are indexed by \<^verbatim>\<open>digit - 2\<close>, and the canonical tables have
  \<^verbatim>\<open>NUM_DIGITS\<close> = 7 entries, the last one (ordinal 6) for the IJ axis; the first ordinal
  outside the tables is \<^verbatim>\<open>INVALID_DIGIT\<close>. A \<^verbatim>\<open>Direction\<close> is a C enumeration without
  negative enumerators and is modelled by its ordinal, a natural number.
  The two sentinels \<^verbatim>\<open>INVALID_ROTATIONS\<close> and \<^verbatim>\<open>INVALID_VERTEX_NUM\<close> are only required to
  differ from every rotation count and every vertex number; they are \<open>-1\<close> in the H3
  headers.
\<close>

definition NUM_BASE_CELLS :: nat where
  "NUM_BASE_CELLS = 122"

definition MAX_BASE_CELL_FACES :: nat where
  "MAX_BASE_CELL_FACES = 5"

definition NUM_HEX_VERTS :: int where
  "NUM_HEX_VERTS = 6"

definition NUM_PENT_VERTS :: int where
  "NUM_PENT_VERTS = 5"

definition INVALID_ROTATIONS :: int where
  "INVALID_ROTATIONS = - 1"

definition INVALID_VERTEX_NUM :: int where
  "INVALID_VERTEX_NUM = - 1"

type_synonym Direction = nat

definition CENTER_DIGIT :: Direction where
  "CENTER_DIGIT = 0"

definition K_AXES_DIGIT :: Direction where
  "K_AXES_DIGIT = 1"

definition J_AXES_DIGIT :: Direction where
  "J_AXES_DIGIT = 2"

definition JK_AXES_DIGIT :: Direction where
  "JK_AXES_DIGIT = 3"

definition I_AXES_DIGIT :: Direction where
  "I_AXES_DIGIT = 4"

definition IK_AXES_DIGIT :: Direction where
  "IK_AXES_DIGIT = 5"

definition IJ_AXES_DIGIT :: Direction where
  "IJ_AXES_DIGIT = 6"

definition INVALID_DIGIT :: Direction where
  "INVALID_DIGIT = 7"

definition NUM_DIGITS :: nat where
  "NUM_DIGITS = INVALID_DIGIT"

text \<open>The struct \<^verbatim>\<open>BaseCellRotation\<close>: a face and the rotations recorded for it.\<close>

record BaseCellRotation =
  face :: int
  ccwRot60 :: int

subsection \<open>What the functions read of a cell\<close>

text \<open>
  An \<^verbatim>\<open>H3Index\<close> enters \<^verbatim>\<open>vertex.c\<close> only through four functions of other files:
  \<^verbatim>\<open>_h3ToFaceIjk\<close> (of whose result only the face is read), \<^verbatim>\<open>h3GetBaseCell\<close>,
  \<^verbatim>\<open>_h3LeadingNonZeroDigit\<close> and \<^verbatim>\<open>h3IsPentagon\<close>. A cell is therefore modelled by
  the four values these functions return for it, named after the local variables that
  receive them. Note that \<^verbatim>\<open>h3IsPentagon\<close> is asked of the cell and
  \<^verbatim>\<open>_isBaseCellPentagon\<close> of its base cell: the source keeps the two apart, and so does
  the model.
\<close>

record H3Index =
  fijk_face :: int
  baseCell :: nat
  cellLeadingDigit :: nat
  isPentagon :: bool

text \<open>
  Modelled from the spec: \<^verbatim>\<open>_isBaseCellPentagon\<close> is defined in \<^verbatim>\<open>baseCells.c\<close>, which
  is not among the sources. The spec says that exactly 12 base units are pentagonal;
  they are the twelve rows of the table below that the source marks \<^verbatim>\<open>(pent)\<close>.
\<close>

definition isBaseCellPentagon :: "nat \<Rightarrow> bool" where
  "isBaseCellPentagon b = (b \<in> set [4, 14, 24, 38, 49, 58, 63, 72, 83, 97, 107, 117])"

subsection \<open>The base cell vertex rotation table\<close>

text \<open>
  For each base cell, the faces it lies on with the counter-clockwise rotations of the
  vertices on that face; unused slots have face \<open>-1\<close>. Pentagons have their faces in
  directional order, starting at \<^verbatim>\<open>J_AXES_DIGIT\<close>.
\<close>

definition baseCellVertexRotations :: "BaseCellRotation list list" where
  "baseCellVertexRotations = [
    [\<lparr>face = 0, ccwRot60 = 5\<rparr>, \<lparr>face = 1, ccwRot60 = 0\<rparr>, \<lparr>face = 2, ccwRot60 = 1\<rparr>, \<lparr>face = -1, ccwRot60 = 0\<rparr>, \<lparr>face = -1, ccwRot60 = 0\<rparr>],  \<comment> \<open>base cell 0\<close>
    [\<lparr>face = 1, ccwRot60 = 5\<rparr>, \<lparr>face = 2, ccwRot60 = 0\<rparr>, \<lparr>face = -1, ccwRot60 = 0\<rparr>, \<lparr>face = -1, ccwRot60 = 0\<rparr>, \<lparr>face = -1, ccwRot60 = 0\<rparr>],  \<comment> \<open>base cell 1\<close>
    [\<lparr>face = 0, ccwRot60 = 5\<rparr>, \<lparr>face = 1, ccwRot60 = 0\<rparr>, \<lparr>face = 2, ccwRot60 = 1\<rparr>, \<lparr>face = 6, ccwRot60 = 3\<rparr>, \<lparr>face = -1, ccwRot60 = 0\<rparr>],  \<comment> \<open>base cell 2\<close>
    [\<lparr>face = 1, ccwRot60 = 5\<rparr>, \<lparr>face = 2, ccwRot60 = 0\<rparr>, \<lparr>face = 3, ccwRot60 = 1\<rparr>, \<lparr>face = -1, ccwRot60 = 0\<rparr>, \<lparr>face = -1, ccwRot60 = 0\<rparr>],  \<comment> \<open>base cell 3\<close>
    [\<lparr>face = 4, ccwRot60 = 5\<rparr>, \<lparr>face = 0, ccwRot60 = 0\<rparr>, \<lparr>face = 2, ccwRot60 = 3\<rparr>, \<lparr>face = 1, ccwRot60 = 2\<rparr>, \<lparr>face = 3, ccwRot60 = 4\<rparr>],  \<comment> \<open>base cell 4 (pent)\<close>
    [\<lparr>face = 0, ccwRot60 = 5\<rparr>, \<lparr>face = 1, ccwRot60 = 0\<rparr>, \<lparr>face = -1, ccwRot60 = 0\<rparr>, \<lparr>face = -1, ccwRot60 = 0\<rparr>, \<lparr>face = -1, ccwRot60 = 0\<rparr>],  \<comment> \<open>base cell 5\<close>
    [\<lparr>face = 1, ccwRot60 = 0\<rparr>, \<lparr>face = 2, ccwRot60 = 1\<rparr>, \<lparr>face = 6, ccwRot60 = 3\<rparr>, \<lparr>face = -1, ccwRot60 = 0\<rparr>, \<lparr>face = -1, ccwRot60 = 0\<rparr>],  \<comment> \<open>base cell 6\<close>
    [\<lparr>face = 1, ccwRot60 = 5\<rparr>, \<lparr>face = 2, ccwRot60 = 0\<rparr>, \<lparr>face = 3, ccwRot60 = 1\<rparr>, \<lparr>face = 7, ccwRot60 = 3\<rparr>, \<lparr>face = -1, ccwRot60 = 0\<rparr>],  \<comment> \<open>base cell 7\<close>
    [\<lparr>face = 0, ccwRot60 = 0\<rparr>, \<lparr>face = 1, ccwRot60 = 1\<rparr>, \<lparr>face = 4, ccwRot60 = 5\<rparr>, \<lparr>face = -1, ccwRot60 = 0\<rparr>, \<lparr>face = -1, ccwRot60 = 0\<rparr>],  \<comment> \<open>base cell 8\<close>
    [\<lparr>face = 1, ccwRot60 = 5\<rparr>, \<lparr>face = 2, ccwRot60 = 0\<rparr>, \<lparr>face = 7, ccwRot60 = 3\<rparr>, \<lparr>face = -1, ccwRot60 = 0\<rparr>, \<lparr>face = -1, ccwRot60 = 0\<rparr>],  \<comment> \<open>base cell 9\<close>
    [\<lparr>face = 0, ccwRot60 = 5\<rparr>, \<lparr>face = 1, ccwRot60 = 0\<rparr>, \<lparr>face = 6, ccwRot60 = 3\<rparr>, \<lparr>face = -1, ccwRot60 = 0\<rparr>, \<lparr>face = -1, ccwRot60 = 0\<rparr>],  \<comment> \<open>base cell 10\<close>
    [\<lparr>face = 1, ccwRot60 = 0\<rparr>, \<lparr>face = 6, ccwRot60 = 3\<rparr>, \<lparr>face = -1, ccwRot60 = 0\<rparr>, \<lparr>face = -1, ccwRot60 = 0\<rparr>, \<lparr>face = -1, ccwRot60 = 0\<rparr>],  \<comment> \<open>base cell 11\<close>
    [\<lparr>face = 2, ccwRot60 = 5\<rparr>, \<lparr>face = 3, ccwRot60 = 0\<rparr>, \<lparr>face = 4, ccwRot60 = 1\<rparr>, \<lparr>face = -1, ccwRot60 = 0\<rparr>, \<lparr>face = -1, ccwRot60 = 0\<rparr>],  \<comment> \<open>base cell 12\<close>
    [\<lparr>face = 2, ccwRot60 = 5\<rparr>, \<lparr>face = 3, ccwRot60 = 0\<rparr>, \<lparr>face = -1, ccwRot60 = 0\<rparr>, \<lparr>face = -1, ccwRot60 = 0\<rparr>, \<lparr>face = -1, ccwRot60 = 0\<rparr>],  \<comment> \<open>base cell 13\<close>
    [\<lparr>face = 6, ccwRot60 = 3\<rparr>, \<lparr>face = 11, ccwRot60 = 0\<rparr>, \<lparr>face = 2, ccwRot60 = 1\<rparr>, \<lparr>face = 7, ccwRot60 = 4\<rparr>, \<lparr>face = 1, ccwRot60 = 0\<rparr>],  \<comment> \<open>base cell 14 (pent)\<close>
    [\<lparr>face = 0, ccwRot60 = 1\<rparr>, \<lparr>face = 3, ccwRot60 = 5\<rparr>, \<lparr>face = 4, ccwRot60 = 0\<rparr>, \<lparr>face = -1, ccwRot60 = 0\<rparr>, \<lparr>face = -1, ccwRot60 = 0\<rparr>],  \<comment> \<open>base cell 15\<close>
    [\<lparr>face = 0, ccwRot60 = 0\<rparr>, \<lparr>face = 1, ccwRot60 = 1\<rparr>, \<lparr>face = 4, ccwRot60 = 5\<rparr>, \<lparr>face = 5, ccwRot60 = 3\<rparr>, \<lparr>face = -1, ccwRot60 = 0\<rparr>],  \<comment> \<open>base cell 16\<close>
    [\<lparr>face = 1, ccwRot60 = 3\<rparr>, \<lparr>face = 6, ccwRot60 = 0\<rparr>, \<lparr>face = 11, ccwRot60 = 3\<rparr>, \<lparr>face = -1, ccwRot60 = 0\<rparr>, \<lparr>face = -1, ccwRot60 = 0\<rparr>],  \<comment> \<open>base cell 17\<close>
    [\<lparr>face = 0, ccwRot60 = 0\<rparr>, \<lparr>face = 1, ccwRot60 = 1\<rparr>, \<lparr>face = 5, ccwRot60 = 3\<rparr>, \<lparr>face = -1, ccwRot60 = 0\<rparr>, \<lparr>face = -1, ccwRot60 = 0\<rparr>],  \<comment> \<open>base cell 18\<close>
    [\<lparr>face = 2, ccwRot60 = 0\<rparr>, \<lparr>face = 7, ccwRot60 = 3\<rparr>, \<lparr>face = -1, ccwRot60 = 0\<rparr>, \<lparr>face = -1, ccwRot60 = 0\<rparr>, \<lparr>face = -1, ccwRot60 = 0\<rparr>],  \<comment> \<open>base cell 19\<close>
    [\<lparr>face = 2, ccwRot60 = 3\<rparr>, \<lparr>face = 7, ccwRot60 = 0\<rparr>, \<lparr>face = 11, ccwRot60 = 3\<rparr>, \<lparr>face = -1, ccwRot60 = 0\<rparr>, \<lparr>face = -1, ccwRot60 = 0\<rparr>],  \<comment> \<open>base cell 20\<close>
    [\<lparr>face = 2, ccwRot60 = 0\<rparr>, \<lparr>face = 3, ccwRot60 = 1\<rparr>, \<lparr>face = 7, ccwRot60 = 3\<rparr>, \<lparr>face = -1, ccwRot60 = 0\<rparr>, \<lparr>face = -1, ccwRot60 = 0\<rparr>],  \<comment> \<open>base cell 21\<close>
    [\<lparr>face = 0, ccwRot60 = 0\<rparr>, \<lparr>face = 4, ccwRot60 = 5\<rparr>, \<lparr>face = -1, ccwRot60 = 0\<rparr>, \<lparr>face = -1, ccwRot60 = 0\<rparr>, \<lparr>face = -1, ccwRot60 = 0\<rparr>],  \<comment> \<open>base cell 22\<close>
    [\<lparr>face = 1, ccwRot60 = 3\<rparr>, \<lparr>face = 6, ccwRot60 = 0\<rparr>, \<lparr>face = 10, ccwRot60 = 3\<rparr>, \<lparr>face = -1, ccwRot60 = 0\<rparr>, \<lparr>face = -1, ccwRot60 = 0\<rparr>],  \<comment> \<open>base cell 23\<close>
    [\<lparr>face = 5, ccwRot60 = 3\<rparr>, \<lparr>face = 10, ccwRot60 = 0\<rparr>, \<lparr>face = 1, ccwRot60 = 1\<rparr>, \<lparr>face = 6, ccwRot60 = 4\<rparr>, \<lparr>face = 0, ccwRot60 = 0\<rparr>],  \<comment> \<open>base cell 24 (pent)\<close>
    [\<lparr>face = 1, ccwRot60 = 3\<rparr>, \<lparr>face = 6, ccwRot60 = 0\<rparr>, \<lparr>face = 10, ccwRot60 = 3\<rparr>, \<lparr>face = 11, ccwRot60 = 3\<rparr>, \<lparr>face = -1, ccwRot60 = 0\<rparr>],  \<comment> \<open>base cell 25\<close>
    [\<lparr>face = 2, ccwRot60 = 5\<rparr>, \<lparr>face = 3, ccwRot60 = 0\<rparr>, \<lparr>face = 4, ccwRot60 = 1\<rparr>, \<lparr>face = 8, ccwRot60 = 3\<rparr>, \<lparr>face = -1, ccwRot60 = 0\<rparr>],  \<comment> \<open>base cell 26\<close>
    [\<lparr>face = 6, ccwRot60 = 3\<rparr>, \<lparr>face = 7, ccwRot60 = 3\<rparr>, \<lparr>face = 11, ccwRot60 = 0\<rparr>, \<lparr>face = -1, ccwRot60 = 0\<rparr>, \<lparr>face = -1, ccwRot60 = 0\<rparr>],  \<comment> \<open>base cell 27\<close>
    [\<lparr>face = 3, ccwRot60 = 5\<rparr>, \<lparr>face = 4, ccwRot60 = 0\<rparr>, \<lparr>face = -1, ccwRot60 = 0\<rparr>, \<lparr>face = -1, ccwRot60 = 0\<rparr>, \<lparr>face = -1, ccwRot60 = 0\<rparr>],  \<comment> \<open>base cell 28\<close>
    [\<lparr>face = 2, ccwRot60 = 5\<rparr>, \<lparr>face = 3, ccwRot60 = 0\<rparr>, \<lparr>face = 8, ccwRot60 = 3\<rparr>, \<lparr>face = -1, ccwRot60 = 0\<rparr>, \<lparr>face = -1, ccwRot60 = 0\<rparr>],  \<comment> \<open>base cell 29\<close>
    [\<lparr>face = 0, ccwRot60 = 0\<rparr>, \<lparr>face = 5, ccwRot60 = 3\<rparr>, \<lparr>face = -1, ccwRot60 = 0\<rparr>, \<lparr>face = -1, ccwRot60 = 0\<rparr>, \<lparr>face = -1, ccwRot60 = 0\<rparr>],  \<comment> \<open>base cell 30\<close>
    [\<lparr>face = 0, ccwRot60 = 1\<rparr>, \<lparr>face = 3, ccwRot60 = 5\<rparr>, \<lparr>face = 4, ccwRot60 = 0\<rparr>, \<lparr>face = 9, ccwRot60 = 3\<rparr>, \<lparr>face = -1, ccwRot60 = 0\<rparr>],  \<comment> \<open>base cell 31\<close>
    [\<lparr>face = 0, ccwRot60 = 3\<rparr>, \<lparr>face = 5, ccwRot60 = 0\<rparr>, \<lparr>face = 10, ccwRot60 = 3\<rparr>, \<lparr>face = -1, ccwRot60 = 0\<rparr>, \<lparr>face = -1, ccwRot60 = 0\<rparr>],  \<comment> \<open>base cell 32\<close>
    [\<lparr>face = 0, ccwRot60 = 0\<rparr>, \<lparr>face = 4, ccwRot60 = 5\<rparr>, \<lparr>face = 5, ccwRot60 = 3\<rparr>, \<lparr>face = -1, ccwRot60 = 0\<rparr>, \<lparr>face = -1, ccwRot60 = 0\<rparr>],  \<comment> \<open>base cell 33\<close>
    [\<lparr>face = 2, ccwRot60 = 3\<rparr>, \<lparr>face = 7, ccwRot60 = 0\<rparr>, \<lparr>face = 12, ccwRot60 = 3\<rparr>, \<lparr>face = -1, ccwRot60 = 0\<rparr>, \<lparr>face = -1, ccwRot60 = 0\<rparr>],  \<comment> \<open>base cell 34\<close>
    [\<lparr>face = 6, ccwRot60 = 3\<rparr>, \<lparr>face = 11, ccwRot60 = 0\<rparr>, \<lparr>face = -1, ccwRot60 = 0\<rparr>, \<lparr>face = -1, ccwRot60 = 0\<rparr>, \<lparr>face = -1, ccwRot60 = 0\<rparr>],  \<comment> \<open>base cell 35\<close>
    [\<lparr>face = 2, ccwRot60 = 3\<rparr>, \<lparr>face = 7, ccwRot60 = 0\<rparr>, \<lparr>face = 11, ccwRot60 = 3\<rparr>, \<lparr>face = 12, ccwRot60 = 3\<rparr>, \<lparr>face = -1, ccwRot60 = 0\<rparr>],  \<comment> \<open>base cell 36\<close>
    [\<lparr>face = 5, ccwRot60 = 3\<rparr>, \<lparr>face = 6, ccwRot60 = 3\<rparr>, \<lparr>face = 10, ccwRot60 = 0\<rparr>, \<lparr>face = -1, ccwRot60 = 0\<rparr>, \<lparr>face = -1, ccwRot60 = 0\<rparr>],  \<comment> \<open>base cell 37\<close>
    [\<lparr>face = 7, ccwRot60 = 3\<rparr>, \<lparr>face = 12, ccwRot60 = 0\<rparr>, \<lparr>face = 3, ccwRot60 = 1\<rparr>, \<lparr>face = 8, ccwRot60 = 4\<rparr>, \<lparr>face = 2, ccwRot60 = 0\<rparr>],  \<comment> \<open>base cell 38 (pent)\<close>
    [\<lparr>face = 6, ccwRot60 = 0\<rparr>, \<lparr>face = 10, ccwRot60 = 3\<rparr>, \<lparr>face = -1, ccwRot60 = 0\<rparr>, \<lparr>face = -1, ccwRot60 = 0\<rparr>, \<lparr>face = -1, ccwRot60 = 0\<rparr>],  \<comment> \<open>base cell 39\<close>
    [\<lparr>face = 7, ccwRot60 = 0\<rparr>, \<lparr>face = 11, ccwRot60 = 3\<rparr>, \<lparr>face = -1, ccwRot60 = 0\<rparr>, \<lparr>face = -1, ccwRot60 = 0\<rparr>, \<lparr>face = -1, ccwRot60 = 0\<rparr>],  \<comment> \<open>base cell 40\<close>
    [\<lparr>face = 0, ccwRot60 = 1\<rparr>, \<lparr>face = 4, ccwRot60 = 0\<rparr>, \<lparr>face = 9, ccwRot60 = 3\<rparr>, \<lparr>face = -1, ccwRot60 = 0\<rparr>, \<lparr>face = -1, ccwRot60 = 0\<rparr>],  \<comment> \<open>base cell 41\<close>
    [\<lparr>face = 3, ccwRot60 = 0\<rparr>, \<lparr>face = 4, ccwRot60 = 1\<rparr>, \<lparr>face = 8, ccwRot60 = 3\<rparr>, \<lparr>face = -1, ccwRot60 = 0\<rparr>, \<lparr>face = -1, ccwRot60 = 0\<rparr>],  \<comment> \<open>base cell 42\<close>
    [\<lparr>face = 3, ccwRot60 = 0\<rparr>, \<lparr>face = 8, ccwRot60 = 3\<rparr>, \<lparr>face = -1, ccwRot60 = 0\<rparr>, \<lparr>face = -1, ccwRot60 = 0\<rparr>, \<lparr>face = -1, ccwRot60 = 0\<rparr>],  \<comment> \<open>base cell 43\<close>
    [\<lparr>face = 3, ccwRot60 = 5\<rparr>, \<lparr>face = 4, ccwRot60 = 0\<rparr>, \<lparr>face = 9, ccwRot60 = 3\<rparr>, \<lparr>face = -1, ccwRot60 = 0\<rparr>, \<lparr>face = -1, ccwRot60 = 0\<rparr>],  \<comment> \<open>base cell 44\<close>
    [\<lparr>face = 6, ccwRot60 = 0\<rparr>, \<lparr>face = 10, ccwRot60 = 3\<rparr>, \<lparr>face = 11, ccwRot60 = 3\<rparr>, \<lparr>face = -1, ccwRot60 = 0\<rparr>, \<lparr>face = -1, ccwRot60 = 0\<rparr>],  \<comment> \<open>base cell 45\<close>
    [\<lparr>face = 6, ccwRot60 = 3\<rparr>, \<lparr>face = 7, ccwRot60 = 3\<rparr>, \<lparr>face = 11, ccwRot60 = 0\<rparr>, \<lparr>face = 16, ccwRot60 = 3\<rparr>, \<lparr>face = -1, ccwRot60 = 0\<rparr>],  \<comment> \<open>base cell 46\<close>
    [\<lparr>face = 3, ccwRot60 = 3\<rparr>, \<lparr>face = 8, ccwRot60 = 0\<rparr>, \<lparr>face = 12, ccwRot60 = 3\<rparr>, \<lparr>face = -1, ccwRot60 = 0\<rparr>, \<lparr>face = -1, ccwRot60 = 0\<rparr>],  \<comment> \<open>base cell 47\<close>
    [\<lparr>face = 0, ccwRot60 = 3\<rparr>, \<lparr>face = 5, ccwRot60 = 0\<rparr>, \<lparr>face = 14, ccwRot60 = 3\<rparr>, \<lparr>face = -1, ccwRot60 = 0\<rparr>, \<lparr>face = -1, ccwRot60 = 0\<rparr>],  \<comment> \<open>base cell 48\<close>
    [\<lparr>face = 9, ccwRot60 = 3\<rparr>, \<lparr>face = 14, ccwRot60 = 0\<rparr>, \<lparr>face = 0, ccwRot60 = 1\<rparr>, \<lparr>face = 5, ccwRot60 = 4\<rparr>, \<lparr>face = 4, ccwRot60 = 0\<rparr>],  \<comment> \<open>base cell 49 (pent)\<close>
    [\<lparr>face = 0, ccwRot60 = 3\<rparr>, \<lparr>face = 5, ccwRot60 = 0\<rparr>, \<lparr>face = 10, ccwRot60 = 3\<rparr>, \<lparr>face = 14, ccwRot60 = 3\<rparr>, \<lparr>face = -1, ccwRot60 = 0\<rparr>],  \<comment> \<open>base cell 50\<close>
    [\<lparr>face = 7, ccwRot60 = 3\<rparr>, \<lparr>face = 8, ccwRot60 = 3\<rparr>, \<lparr>face = 12, ccwRot60 = 0\<rparr>, \<lparr>face = -1, ccwRot60 = 0\<rparr>, \<lparr>face = -1, ccwRot60 = 0\<rparr>],  \<comment> \<open>base cell 51\<close>
    [\<lparr>face = 5, ccwRot60 = 3\<rparr>, \<lparr>face = 10, ccwRot60 = 0\<rparr>, \<lparr>face = -1, ccwRot60 = 0\<rparr>, \<lparr>face = -1, ccwRot60 = 0\<rparr>, \<lparr>face = -1, ccwRot60 = 0\<rparr>],  \<comment> \<open>base cell 52\<close>
    [\<lparr>face = 4, ccwRot60 = 0\<rparr>, \<lparr>face = 9, ccwRot60 = 3\<rparr>, \<lparr>face = -1, ccwRot60 = 0\<rparr>, \<lparr>face = -1, ccwRot60 = 0\<rparr>, \<lparr>face = -1, ccwRot60 = 0\<rparr>],  \<comment> \<open>base cell 53\<close>
    [\<lparr>face = 7, ccwRot60 = 3\<rparr>, \<lparr>face = 12, ccwRot60 = 0\<rparr>, \<lparr>face = -1, ccwRot60 = 0\<rparr>, \<lparr>face = -1, ccwRot60 = 0\<rparr>, \<lparr>face = -1, ccwRot60 = 0\<rparr>],  \<comment> \<open>base cell 54\<close>
    [\<lparr>face = 7, ccwRot60 = 0\<rparr>, \<lparr>face = 11, ccwRot60 = 3\<rparr>, \<lparr>face = 12, ccwRot60 = 3\<rparr>, \<lparr>face = -1, ccwRot60 = 0\<rparr>, \<lparr>face = -1, ccwRot60 = 0\<rparr>],  \<comment> \<open>base cell 55\<close>
    [\<lparr>face = 6, ccwRot60 = 3\<rparr>, \<lparr>face = 11, ccwRot60 = 0\<rparr>, \<lparr>face = 16, ccwRot60 = 3\<rparr>, \<lparr>face = -1, ccwRot60 = 0\<rparr>, \<lparr>face = -1, ccwRot60 = 0\<rparr>],  \<comment> \<open>base cell 56\<close>
    [\<lparr>face = 5, ccwRot60 = 1\<rparr>, \<lparr>face = 6, ccwRot60 = 3\<rparr>, \<lparr>face = 10, ccwRot60 = 0\<rparr>, \<lparr>face = 15, ccwRot60 = 3\<rparr>, \<lparr>face = -1, ccwRot60 = 0\<rparr>],  \<comment> \<open>base cell 57\<close>
    [\<lparr>face = 8, ccwRot60 = 3\<rparr>, \<lparr>face = 13, ccwRot60 = 0\<rparr>, \<lparr>face = 4, ccwRot60 = 1\<rparr>, \<lparr>face = 9, ccwRot60 = 4\<rparr>, \<lparr>face = 3, ccwRot60 = 0\<rparr>],  \<comment> \<open>base cell 58 (pent)\<close>
    [\<lparr>face = 6, ccwRot60 = 3\<rparr>, \<lparr>face = 10, ccwRot60 = 0\<rparr>, \<lparr>face = 15, ccwRot60 = 3\<rparr>, \<lparr>face = -1, ccwRot60 = 0\<rparr>, \<lparr>face = -1, ccwRot60 = 0\<rparr>],  \<comment> \<open>base cell 59\<close>
    [\<lparr>face = 7, ccwRot60 = 3\<rparr>, \<lparr>face = 11, ccwRot60 = 0\<rparr>, \<lparr>face = 16, ccwRot60 = 3\<rparr>, \<lparr>face = -1, ccwRot60 = 0\<rparr>, \<lparr>face = -1, ccwRot60 = 0\<rparr>],  \<comment> \<open>base cell 60\<close>
    [\<lparr>face = 4, ccwRot60 = 3\<rparr>, \<lparr>face = 9, ccwRot60 = 0\<rparr>, \<lparr>face = 14, ccwRot60 = 3\<rparr>, \<lparr>face = -1, ccwRot60 = 0\<rparr>, \<lparr>face = -1, ccwRot60 = 0\<rparr>],  \<comment> \<open>base cell 61\<close>
    [\<lparr>face = 3, ccwRot60 = 3\<rparr>, \<lparr>face = 8, ccwRot60 = 0\<rparr>, \<lparr>face = 13, ccwRot60 = 3\<rparr>, \<lparr>face = -1, ccwRot60 = 0\<rparr>, \<lparr>face = -1, ccwRot60 = 0\<rparr>],  \<comment> \<open>base cell 62\<close>
    [\<lparr>face = 11, ccwRot60 = 3\<rparr>, \<lparr>face = 6, ccwRot60 = 0\<rparr>, \<lparr>face = 15, ccwRot60 = 1\<rparr>, \<lparr>face = 10, ccwRot60 = 4\<rparr>, \<lparr>face = 16, ccwRot60 = 0\<rparr>],  \<comment> \<open>base cell 63 (pent)\<close>
    [\<lparr>face = 3, ccwRot60 = 3\<rparr>, \<lparr>face = 8, ccwRot60 = 0\<rparr>, \<lparr>face = 12, ccwRot60 = 3\<rparr>, \<lparr>face = 13, ccwRot60 = 3\<rparr>, \<lparr>face = -1, ccwRot60 = 0\<rparr>],  \<comment> \<open>base cell 64\<close>
    [\<lparr>face = 4, ccwRot60 = 3\<rparr>, \<lparr>face = 9, ccwRot60 = 0\<rparr>, \<lparr>face = 13, ccwRot60 = 3\<rparr>, \<lparr>face = -1, ccwRot60 = 0\<rparr>, \<lparr>face = -1, ccwRot60 = 0\<rparr>],  \<comment> \<open>base cell 65\<close>
    [\<lparr>face = 5, ccwRot60 = 3\<rparr>, \<lparr>face = 9, ccwRot60 = 3\<rparr>, \<lparr>face = 14, ccwRot60 = 0\<rparr>, \<lparr>face = -1, ccwRot60 = 0\<rparr>, \<lparr>face = -1, ccwRot60 = 0\<rparr>],  \<comment> \<open>base cell 66\<close>
    [\<lparr>face = 5, ccwRot60 = 0\<rparr>, \<lparr>face = 14, ccwRot60 = 3\<rparr>, \<lparr>face = -1, ccwRot60 = 0\<rparr>, \<lparr>face = -1, ccwRot60 = 0\<rparr>, \<lparr>face = -1, ccwRot60 = 0\<rparr>],  \<comment> \<open>base cell 67\<close>
    [\<lparr>face = 11, ccwRot60 = 3\<rparr>, \<lparr>face = 16, ccwRot60 = 0\<rparr>, \<lparr>face = -1, ccwRot60 = 0\<rparr>, \<lparr>face = -1, ccwRot60 = 0\<rparr>, \<lparr>face = -1, ccwRot60 = 0\<rparr>],  \<comment> \<open>base cell 68\<close>
    [\<lparr>face = 8, ccwRot60 = 0\<rparr>, \<lparr>face = 12, ccwRot60 = 3\<rparr>, \<lparr>face = -1, ccwRot60 = 0\<rparr>, \<lparr>face = -1, ccwRot60 = 0\<rparr>, \<lparr>face = -1, ccwRot60 = 0\<rparr>],  \<comment> \<open>base cell 69\<close>
    [\<lparr>face = 5, ccwRot60 = 0\<rparr>, \<lparr>face = 10, ccwRot60 = 3\<rparr>, \<lparr>face = 14, ccwRot60 = 3\<rparr>, \<lparr>face = -1, ccwRot60 = 0\<rparr>, \<lparr>face = -1, ccwRot60 = 0\<rparr>],  \<comment> \<open>base cell 70\<close>
    [\<lparr>face = 7, ccwRot60 = 3\<rparr>, \<lparr>face = 8, ccwRot60 = 3\<rparr>, \<lparr>face = 12, ccwRot60 = 0\<rparr>, \<lparr>face = 17, ccwRot60 = 3\<rparr>, \<lparr>face = -1, ccwRot60 = 0\<rparr>],  \<comment> \<open>base cell 71\<close>
    [\<lparr>face = 12, ccwRot60 = 3\<rparr>, \<lparr>face = 7, ccwRot60 = 0\<rparr>, \<lparr>face = 16, ccwRot60 = 1\<rparr>, \<lparr>face = 11, ccwRot60 = 4\<rparr>, \<lparr>face = 17, ccwRot60 = 0\<rparr>],  \<comment> \<open>base cell 72 (pent)\<close>
    [\<lparr>face = 7, ccwRot60 = 3\<rparr>, \<lparr>face = 12, ccwRot60 = 0\<rparr>, \<lparr>face = 17, ccwRot60 = 3\<rparr>, \<lparr>face = -1, ccwRot60 = 0\<rparr>, \<lparr>face = -1, ccwRot60 = 0\<rparr>],  \<comment> \<open>base cell 73\<close>
    [\<lparr>face = 5, ccwRot60 = 3\<rparr>, \<lparr>face = 10, ccwRot60 = 0\<rparr>, \<lparr>face = 15, ccwRot60 = 3\<rparr>, \<lparr>face = -1, ccwRot60 = 0\<rparr>, \<lparr>face = -1, ccwRot60 = 0\<rparr>],  \<comment> \<open>base cell 74\<close>
    [\<lparr>face = 4, ccwRot60 = 3\<rparr>, \<lparr>face = 9, ccwRot60 = 0\<rparr>, \<lparr>face = 13, ccwRot60 = 3\<rparr>, \<lparr>face = 14, ccwRot60 = 3\<rparr>, \<lparr>face = -1, ccwRot60 = 0\<rparr>],  \<comment> \<open>base cell 75\<close>
    [\<lparr>face = 8, ccwRot60 = 3\<rparr>, \<lparr>face = 9, ccwRot60 = 3\<rparr>, \<lparr>face = 13, ccwRot60 = 0\<rparr>, \<lparr>face = -1, ccwRot60 = 0\<rparr>, \<lparr>face = -1, ccwRot60 = 0\<rparr>],  \<comment> \<open>base cell 76\<close>
    [\<lparr>face = 11, ccwRot60 = 3\<rparr>, \<lparr>face = 15, ccwRot60 = 1\<rparr>, \<lparr>face = 16, ccwRot60 = 0\<rparr>, \<lparr>face = -1, ccwRot60 = 0\<rparr>, \<lparr>face = -1, ccwRot60 = 0\<rparr>],  \<comment> \<open>base cell 77\<close>
    [\<lparr>face = 10, ccwRot60 = 3\<rparr>, \<lparr>face = 15, ccwRot60 = 0\<rparr>, \<lparr>face = -1, ccwRot60 = 0\<rparr>, \<lparr>face = -1, ccwRot60 = 0\<rparr>, \<lparr>face = -1, ccwRot60 = 0\<rparr>],  \<comment> \<open>base cell 78\<close>
    [\<lparr>face = 10, ccwRot60 = 3\<rparr>, \<lparr>face = 15, ccwRot60 = 0\<rparr>, \<lparr>face = 16, ccwRot60 = 5\<rparr>, \<lparr>face = -1, ccwRot60 = 0\<rparr>, \<lparr>face = -1, ccwRot60 = 0\<rparr>],  \<comment> \<open>base cell 79\<close>
    [\<lparr>face = 11, ccwRot60 = 3\<rparr>, \<lparr>face = 16, ccwRot60 = 0\<rparr>, \<lparr>face = 17, ccwRot60 = 5\<rparr>, \<lparr>face = -1, ccwRot60 = 0\<rparr>, \<lparr>face = -1, ccwRot60 = 0\<rparr>],  \<comment> \<open>base cell 80\<close>
    [\<lparr>face = 9, ccwRot60 = 3\<rparr>, \<lparr>face = 14, ccwRot60 = 0\<rparr>, \<lparr>face = -1, ccwRot60 = 0\<rparr>, \<lparr>face = -1, ccwRot60 = 0\<rparr>, \<lparr>face = -1, ccwRot60 = 0\<rparr>],  \<comment> \<open>base cell 81\<close>
    [\<lparr>face = 8, ccwRot60 = 3\<rparr>, \<lparr>face = 13, ccwRot60 = 0\<rparr>, \<lparr>face = -1, ccwRot60 = 0\<rparr>, \<lparr>face = -1, ccwRot60 = 0\<rparr>, \<lparr>face = -1, ccwRot60 = 0\<rparr>],  \<comment> \<open>base cell 82\<close>
    [\<lparr>face = 10, ccwRot60 = 3\<rparr>, \<lparr>face = 5, ccwRot60 = 0\<rparr>, \<lparr>face = 19, ccwRot60 = 1\<rparr>, \<lparr>face = 14, ccwRot60 = 4\<rparr>, \<lparr>face = 15, ccwRot60 = 0\<rparr>],  \<comment> \<open>base cell 83 (pent)\<close>
    [\<lparr>face = 8, ccwRot60 = 0\<rparr>, \<lparr>face = 12, ccwRot60 = 3\<rparr>, \<lparr>face = 13, ccwRot60 = 3\<rparr>, \<lparr>face = -1, ccwRot60 = 0\<rparr>, \<lparr>face = -1, ccwRot60 = 0\<rparr>],  \<comment> \<open>base cell 84\<close>
    [\<lparr>face = 5, ccwRot60 = 3\<rparr>, \<lparr>face = 9, ccwRot60 = 3\<rparr>, \<lparr>face = 14, ccwRot60 = 0\<rparr>, \<lparr>face = 19, ccwRot60 = 3\<rparr>, \<lparr>face = -1, ccwRot60 = 0\<rparr>],  \<comment> \<open>base cell 85\<close>
    [\<lparr>face = 9, ccwRot60 = 0\<rparr>, \<lparr>face = 13, ccwRot60 = 3\<rparr>, \<lparr>face = -1, ccwRot60 = 0\<rparr>, \<lparr>face = -1, ccwRot60 = 0\<rparr>, \<lparr>face = -1, ccwRot60 = 0\<rparr>],  \<comment> \<open>base cell 86\<close>
    [\<lparr>face = 5, ccwRot60 = 3\<rparr>, \<lparr>face = 14, ccwRot60 = 0\<rparr>, \<lparr>face = 19, ccwRot60 = 3\<rparr>, \<lparr>face = -1, ccwRot60 = 0\<rparr>, \<lparr>face = -1, ccwRot60 = 0\<rparr>],  \<comment> \<open>base cell 87\<close>
    [\<lparr>face = 12, ccwRot60 = 3\<rparr>, \<lparr>face = 16, ccwRot60 = 1\<rparr>, \<lparr>face = 17, ccwRot60 = 0\<rparr>, \<lparr>face = -1, ccwRot60 = 0\<rparr>, \<lparr>face = -1, ccwRot60 = 0\<rparr>],  \<comment> \<open>base cell 88\<close>
    [\<lparr>face = 8, ccwRot60 = 3\<rparr>, \<lparr>face = 12, ccwRot60 = 0\<rparr>, \<lparr>face = 17, ccwRot60 = 3\<rparr>, \<lparr>face = -1, ccwRot60 = 0\<rparr>, \<lparr>face = -1, ccwRot60 = 0\<rparr>],  \<comment> \<open>base cell 89\<close>
    [\<lparr>face = 11, ccwRot60 = 3\<rparr>, \<lparr>face = 15, ccwRot60 = 1\<rparr>, \<lparr>face = 16, ccwRot60 = 0\<rparr>, \<lparr>face = 17, ccwRot60 = 5\<rparr>, \<lparr>face = -1, ccwRot60 = 0\<rparr>],  \<comment> \<open>base cell 90\<close>
    [\<lparr>face = 12, ccwRot60 = 3\<rparr>, \<lparr>face = 17, ccwRot60 = 0\<rparr>, \<lparr>face = -1, ccwRot60 = 0\<rparr>, \<lparr>face = -1, ccwRot60 = 0\<rparr>, \<lparr>face = -1, ccwRot60 = 0\<rparr>],  \<comment> \<open>base cell 91\<close>
    [\<lparr>face = 10, ccwRot60 = 3\<rparr>, \<lparr>face = 15, ccwRot60 = 0\<rparr>, \<lparr>face = 19, ccwRot60 = 1\<rparr>, \<lparr>face = -1, ccwRot60 = 0\<rparr>, \<lparr>face = -1, ccwRot60 = 0\<rparr>],  \<comment> \<open>base cell 92\<close>
    [\<lparr>face = 15, ccwRot60 = 1\<rparr>, \<lparr>face = 16, ccwRot60 = 0\<rparr>, \<lparr>face = -1, ccwRot60 = 0\<rparr>, \<lparr>face = -1, ccwRot60 = 0\<rparr>, \<lparr>face = -1, ccwRot60 = 0\<rparr>],  \<comment> \<open>base cell 93\<close>
    [\<lparr>face = 9, ccwRot60 = 0\<rparr>, \<lparr>face = 13, ccwRot60 = 3\<rparr>, \<lparr>face = 14, ccwRot60 = 3\<rparr>, \<lparr>face = -1, ccwRot60 = 0\<rparr>, \<lparr>face = -1, ccwRot60 = 0\<rparr>],  \<comment> \<open>base cell 94\<close>
    [\<lparr>face = 10, ccwRot60 = 3\<rparr>, \<lparr>face = 15, ccwRot60 = 0\<rparr>, \<lparr>face = 16, ccwRot60 = 5\<rparr>, \<lparr>face = 19, ccwRot60 = 1\<rparr>, \<lparr>face = -1, ccwRot60 = 0\<rparr>],  \<comment> \<open>base cell 95\<close>
    [\<lparr>face = 8, ccwRot60 = 3\<rparr>, \<lparr>face = 9, ccwRot60 = 3\<rparr>, \<lparr>face = 13, ccwRot60 = 0\<rparr>, \<lparr>face = 18, ccwRot60 = 3\<rparr>, \<lparr>face = -1, ccwRot60 = 0\<rparr>],  \<comment> \<open>base cell 96\<close>
    [\<lparr>face = 13, ccwRot60 = 3\<rparr>, \<lparr>face = 8, ccwRot60 = 0\<rparr>, \<lparr>face = 17, ccwRot60 = 1\<rparr>, \<lparr>face = 12, ccwRot60 = 4\<rparr>, \<lparr>face = 18, ccwRot60 = 0\<rparr>],  \<comment> \<open>base cell 97 (pent)\<close>
    [\<lparr>face = 8, ccwRot60 = 3\<rparr>, \<lparr>face = 13, ccwRot60 = 0\<rparr>, \<lparr>face = 18, ccwRot60 = 3\<rparr>, \<lparr>face = -1, ccwRot60 = 0\<rparr>, \<lparr>face = -1, ccwRot60 = 0\<rparr>],  \<comment> \<open>base cell 98\<close>
    [\<lparr>face = 16, ccwRot60 = 1\<rparr>, \<lparr>face = 17, ccwRot60 = 0\<rparr>, \<lparr>face = -1, ccwRot60 = 0\<rparr>, \<lparr>face = -1, ccwRot60 = 0\<rparr>, \<lparr>face = -1, ccwRot60 = 0\<rparr>],  \<comment> \<open>base cell 99\<close>
    [\<lparr>face = 14, ccwRot60 = 3\<rparr>, \<lparr>face = 15, ccwRot60 = 5\<rparr>, \<lparr>face = 19, ccwRot60 = 0\<rparr>, \<lparr>face = -1, ccwRot60 = 0\<rparr>, \<lparr>face = -1, ccwRot60 = 0\<rparr>],  \<comment> \<open>base cell 100\<close>
    [\<lparr>face = 9, ccwRot60 = 3\<rparr>, \<lparr>face = 14, ccwRot60 = 0\<rparr>, \<lparr>face = 19, ccwRot60 = 3\<rparr>, \<lparr>face = -1, ccwRot60 = 0\<rparr>, \<lparr>face = -1, ccwRot60 = 0\<rparr>],  \<comment> \<open>base cell 101\<close>
    [\<lparr>face = 14, ccwRot60 = 3\<rparr>, \<lparr>face = 19, ccwRot60 = 0\<rparr>, \<lparr>face = -1, ccwRot60 = 0\<rparr>, \<lparr>face = -1, ccwRot60 = 0\<rparr>, \<lparr>face = -1, ccwRot60 = 0\<rparr>],  \<comment> \<open>base cell 102\<close>
    [\<lparr>face = 12, ccwRot60 = 3\<rparr>, \<lparr>face = 17, ccwRot60 = 0\<rparr>, \<lparr>face = 18, ccwRot60 = 5\<rparr>, \<lparr>face = -1, ccwRot60 = 0\<rparr>, \<lparr>face = -1, ccwRot60 = 0\<rparr>],  \<comment> \<open>base cell 103\<close>
    [\<lparr>face = 9, ccwRot60 = 3\<rparr>, \<lparr>face = 13, ccwRot60 = 0\<rparr>, \<lparr>face = 18, ccwRot60 = 3\<rparr>, \<lparr>face = -1, ccwRot60 = 0\<rparr>, \<lparr>face = -1, ccwRot60 = 0\<rparr>],  \<comment> \<open>base cell 104\<close>
    [\<lparr>face = 12, ccwRot60 = 3\<rparr>, \<lparr>face = 16, ccwRot60 = 1\<rparr>, \<lparr>face = 17, ccwRot60 = 0\<rparr>, \<lparr>face = 18, ccwRot60 = 5\<rparr>, \<lparr>face = -1, ccwRot60 = 0\<rparr>],  \<comment> \<open>base cell 105\<close>
    [\<lparr>face = 15, ccwRot60 = 1\<rparr>, \<lparr>face = 16, ccwRot60 = 0\<rparr>, \<lparr>face = 17, ccwRot60 = 5\<rparr>, \<lparr>face = -1, ccwRot60 = 0\<rparr>, \<lparr>face = -1, ccwRot60 = 0\<rparr>],  \<comment> \<open>base cell 106\<close>
    [\<lparr>face = 14, ccwRot60 = 3\<rparr>, \<lparr>face = 9, ccwRot60 = 0\<rparr>, \<lparr>face = 18, ccwRot60 = 1\<rparr>, \<lparr>face = 13, ccwRot60 = 4\<rparr>, \<lparr>face = 19, ccwRot60 = 0\<rparr>],  \<comment> \<open>base cell 107 (pent)\<close>
    [\<lparr>face = 15, ccwRot60 = 0\<rparr>, \<lparr>face = 19, ccwRot60 = 1\<rparr>, \<lparr>face = -1, ccwRot60 = 0\<rparr>, \<lparr>face = -1, ccwRot60 = 0\<rparr>, \<lparr>face = -1, ccwRot60 = 0\<rparr>],  \<comment> \<open>base cell 108\<close>
    [\<lparr>face = 15, ccwRot60 = 0\<rparr>, \<lparr>face = 16, ccwRot60 = 5\<rparr>, \<lparr>face = 19, ccwRot60 = 1\<rparr>, \<lparr>face = -1, ccwRot60 = 0\<rparr>, \<lparr>face = -1, ccwRot60 = 0\<rparr>],  \<comment> \<open>base cell 109\<close>
    [\<lparr>face = 13, ccwRot60 = 3\<rparr>, \<lparr>face = 18, ccwRot60 = 0\<rparr>, \<lparr>face = -1, ccwRot60 = 0\<rparr>, \<lparr>face = -1, ccwRot60 = 0\<rparr>, \<lparr>face = -1, ccwRot60 = 0\<rparr>],  \<comment> \<open>base cell 110\<close>
    [\<lparr>face = 13, ccwRot60 = 3\<rparr>, \<lparr>face = 17, ccwRot60 = 1\<rparr>, \<lparr>face = 18, ccwRot60 = 0\<rparr>, \<lparr>face = -1, ccwRot60 = 0\<rparr>, \<lparr>face = -1, ccwRot60 = 0\<rparr>],  \<comment> \<open>base cell 111\<close>
    [\<lparr>face = 14, ccwRot60 = 3\<rparr>, \<lparr>face = 18, ccwRot60 = 1\<rparr>, \<lparr>face = 19, ccwRot60 = 0\<rparr>, \<lparr>face = -1, ccwRot60 = 0\<rparr>, \<lparr>face = -1, ccwRot60 = 0\<rparr>],  \<comment> \<open>base cell 112\<close>
    [\<lparr>face = 16, ccwRot60 = 1\<rparr>, \<lparr>face = 17, ccwRot60 = 0\<rparr>, \<lparr>face = 18, ccwRot60 = 5\<rparr>, \<lparr>face = -1, ccwRot60 = 0\<rparr>, \<lparr>face = -1, ccwRot60 = 0\<rparr>],  \<comment> \<open>base cell 113\<close>
    [\<lparr>face = 14, ccwRot60 = 3\<rparr>, \<lparr>face = 15, ccwRot60 = 5\<rparr>, \<lparr>face = 18, ccwRot60 = 1\<rparr>, \<lparr>face = 19, ccwRot60 = 0\<rparr>, \<lparr>face = -1, ccwRot60 = 0\<rparr>],  \<comment> \<open>base cell 114\<close>
    [\<lparr>face = 13, ccwRot60 = 3\<rparr>, \<lparr>face = 18, ccwRot60 = 0\<rparr>, \<lparr>face = 19, ccwRot60 = 5\<rparr>, \<lparr>face = -1, ccwRot60 = 0\<rparr>, \<lparr>face = -1, ccwRot60 = 0\<rparr>],  \<comment> \<open>base cell 115\<close>
    [\<lparr>face = 17, ccwRot60 = 1\<rparr>, \<lparr>face = 18, ccwRot60 = 0\<rparr>, \<lparr>face = -1, ccwRot60 = 0\<rparr>, \<lparr>face = -1, ccwRot60 = 0\<rparr>, \<lparr>face = -1, ccwRot60 = 0\<rparr>],  \<comment> \<open>base cell 116\<close>
    [\<lparr>face = 15, ccwRot60 = 5\<rparr>, \<lparr>face = 19, ccwRot60 = 0\<rparr>, \<lparr>face = 17, ccwRot60 = 3\<rparr>, \<lparr>face = 18, ccwRot60 = 2\<rparr>, \<lparr>face = 16, ccwRot60 = 4\<rparr>],  \<comment> \<open>base cell 117 (pent)\<close>
    [\<lparr>face = 15, ccwRot60 = 5\<rparr>, \<lparr>face = 18, ccwRot60 = 1\<rparr>, \<lparr>face = 19, ccwRot60 = 0\<rparr>, \<lparr>face = -1, ccwRot60 = 0\<rparr>, \<lparr>face = -1, ccwRot60 = 0\<rparr>],  \<comment> \<open>base cell 118\<close>
    [\<lparr>face = 13, ccwRot60 = 3\<rparr>, \<lparr>face = 17, ccwRot60 = 1\<rparr>, \<lparr>face = 18, ccwRot60 = 0\<rparr>, \<lparr>face = 19, ccwRot60 = 5\<rparr>, \<lparr>face = -1, ccwRot60 = 0\<rparr>],  \<comment> \<open>base cell 119\<close>
    [\<lparr>face = 18, ccwRot60 = 1\<rparr>, \<lparr>face = 19, ccwRot60 = 0\<rparr>, \<lparr>face = -1, ccwRot60 = 0\<rparr>, \<lparr>face = -1, ccwRot60 = 0\<rparr>, \<lparr>face = -1, ccwRot60 = 0\<rparr>],  \<comment> \<open>base cell 120\<close>
    [\<lparr>face = 17, ccwRot60 = 1\<rparr>, \<lparr>face = 18, ccwRot60 = 0\<rparr>, \<lparr>face = 19, ccwRot60 = 5\<rparr>, \<lparr>face = -1, ccwRot60 = 0\<rparr>, \<lparr>face = -1, ccwRot60 = 0\<rparr>]  \<comment> \<open>base cell 121\<close>
  ]"

subsection \<open>\<^verbatim>\<open>vertexRotations\<close>\<close>

text \<open>
  The loop over the face slots of the base cell, from slot \<open>i\<close> on. The slot indices
  \<open>i\<close>, \<^verbatim>\<open>IK_AXES_DIGIT - 2\<close> and \<^verbatim>\<open>JK_AXES_DIGIT - 2\<close> are all below
  \<^verbatim>\<open>MAX_BASE_CELL_FACES\<close>; the row index is checked by \<open>vertexRotations\<close> below.
\<close>

function vertexRotations_loop :: "H3Index \<Rightarrow> nat \<Rightarrow> int" where
  "vertexRotations_loop cell i =
     (if i < MAX_BASE_CELL_FACES then
        (let rotation = baseCellVertexRotations ! baseCell cell ! i in
         if face rotation = fijk_face cell then
           (if isBaseCellPentagon (baseCell cell) then
              (if cellLeadingDigit cell = JK_AXES_DIGIT \<and>
                  fijk_face cell =
                    face (baseCellVertexRotations ! baseCell cell ! (IK_AXES_DIGIT - 2))
               then (if ccwRot60 rotation = 0 then 5 else ccwRot60 rotation - 1)
               else if cellLeadingDigit cell = IK_AXES_DIGIT \<and>
                  fijk_face cell =
                    face (baseCellVertexRotations ! baseCell cell ! (JK_AXES_DIGIT - 2))
               then (ccwRot60 rotation + 1) smod 6
               else ccwRot60 rotation)
            else ccwRot60 rotation)
         else vertexRotations_loop cell (i + 1))
      else INVALID_ROTATIONS)"
  by pat_completeness auto
termination
  by (relation "measure (\<lambda>(cell, i). MAX_BASE_CELL_FACES - i)") auto

declare vertexRotations_loop.simps [simp del]

text \<open>
  The first iteration reads \<^verbatim>\<open>baseCellVertexRotations[baseCell][0]\<close>. For a base cell
  number outside the table this read is undefined behaviour in C; the model returns
  \<open>None\<close> there and \<open>Some\<close> of the C result otherwise.
\<close>

definition vertexRotations :: "H3Index \<Rightarrow> int option" where
  "vertexRotations cell =
     (if baseCell cell < NUM_BASE_CELLS then Some (vertexRotations_loop cell 0) else None)"

subsection \<open>\<^verbatim>\<open>vertexNumForDirection\<close>\<close>

text \<open>Hexagon direction to vertex number relationships; direction 0 (centre) is not used.\<close>

definition directionToVertexNumHex :: "int list" where
  "directionToVertexNumHex = [int INVALID_DIGIT, 3, 1, 2, 5, 4, 0]"

text \<open>
  Pentagon direction to vertex number relationships; directions 0 (centre) and 1 (the
  deleted K axis) are not used.
\<close>

definition directionToVertexNumPent :: "int list" where
  "directionToVertexNumPent = [int INVALID_DIGIT, int INVALID_DIGIT, 1, 2, 4, 3, 0]"

text \<open>
  The arithmetic of the final \<^verbatim>\<open>return\<close>, the same in both branches of the conditional
  expression: \<^verbatim>\<open>(vertexNum + numVerts - rotations) % numVerts\<close>.
\<close>

definition rotateVertexNum :: "int \<Rightarrow> int \<Rightarrow> int \<Rightarrow> int" where
  "rotateVertexNum numVerts vertexNum rotations =
     (vertexNum + numVerts - rotations) smod numVerts"

definition vertexNumForDirection :: "H3Index \<Rightarrow> Direction \<Rightarrow> int option" where
  "vertexNumForDirection origin direction =
     (if direction = CENTER_DIGIT \<or> direction \<ge> INVALID_DIGIT \<or>
         (isPentagon origin \<and> direction = K_AXES_DIGIT)
      then Some INVALID_VERTEX_NUM
      else
        (case vertexRotations origin of
           None \<Rightarrow> None
         | Some rotations \<Rightarrow>
             if rotations = INVALID_ROTATIONS then Some INVALID_VERTEX_NUM
             else if isPentagon origin
               then Some (rotateVertexNum NUM_PENT_VERTS
                            (directionToVertexNumPent ! direction) rotations)
               else Some (rotateVertexNum NUM_HEX_VERTS
                            (directionToVertexNumHex ! direction) rotations)))"


section \<open>Properties\<close>

subsection \<open>The table\<close>

lemma table_length: "length baseCellVertexRotations = NUM_BASE_CELLS"
  by (simp add: baseCellVertexRotations_def NUM_BASE_CELLS_def)

lemma table_rows:
  "list_all (\<lambda>row. length row = MAX_BASE_CELL_FACES \<and>
      list_all (\<lambda>r. 0 \<le> ccwRot60 r \<and> ccwRot60 r \<le> 5) row)
     baseCellVertexRotations"
  by (simp add: baseCellVertexRotations_def MAX_BASE_CELL_FACES_def)

lemma row_length:
  assumes "b < NUM_BASE_CELLS"
  shows "length (baseCellVertexRotations ! b) = MAX_BASE_CELL_FACES"
  using assms table_rows table_length by (simp add: list_all_length)

lemma slot_ccwRot60_range:
  assumes "b < NUM_BASE_CELLS" and "i < MAX_BASE_CELL_FACES"
  shows "0 \<le> ccwRot60 (baseCellVertexRotations ! b ! i) \<and>
         ccwRot60 (baseCellVertexRotations ! b ! i) \<le> 5"
  using assms table_rows table_length by (simp add: list_all_length)

lemma pentagon_cases:
  assumes "isBaseCellPentagon b"
  shows "b = 4 \<or> b = 14 \<or> b = 24 \<or> b = 38 \<or> b = 49 \<or> b = 58 \<or> b = 63 \<or> b = 72 \<or>
         b = 83 \<or> b = 97 \<or> b = 107 \<or> b = 117"
  using assms by (simp add: isBaseCellPentagon_def)

lemma pentagon_in_table:
  assumes "isBaseCellPentagon b"
  shows "b < NUM_BASE_CELLS"
  using pentagon_cases [OF assms] by (auto simp add: NUM_BASE_CELLS_def)

text \<open>The five slots of a pentagon are all in use, and for five different faces.\<close>

lemma pentagon_row_distinct:
  assumes "isBaseCellPentagon b"
  shows "distinct (map face (baseCellVertexRotations ! b))"
  using pentagon_cases [OF assms]
  by (elim disjE) (simp_all add: baseCellVertexRotations_def)

lemma row_0:
  "baseCellVertexRotations ! 0 =
     [\<lparr>face = 0, ccwRot60 = 5\<rparr>, \<lparr>face = 1, ccwRot60 = 0\<rparr>, \<lparr>face = 2, ccwRot60 = 1\<rparr>,
      \<lparr>face = - 1, ccwRot60 = 0\<rparr>, \<lparr>face = - 1, ccwRot60 = 0\<rparr>]"
  by (simp add: baseCellVertexRotations_def)

lemma row_4:
  "baseCellVertexRotations ! 4 =
     [\<lparr>face = 4, ccwRot60 = 5\<rparr>, \<lparr>face = 0, ccwRot60 = 0\<rparr>, \<lparr>face = 2, ccwRot60 = 3\<rparr>,
      \<lparr>face = 1, ccwRot60 = 2\<rparr>, \<lparr>face = 3, ccwRot60 = 4\<rparr>]"
  by (simp add: baseCellVertexRotations_def)

subsection \<open>The remainder on non-negative operands\<close>

lemma smod_nonneg:
  fixes a b :: int
  assumes "0 \<le> a" and "0 < b"
  shows "a smod b = a mod b"
proof (cases "a = 0")
  case True
  then show ?thesis by (simp add: signed_modulo_int_def)
next
  case False
  with assms have "sgn a = 1" and "\<bar>a\<bar> = a" and "\<bar>b\<bar> = b" by simp_all
  then show ?thesis by (simp add: signed_modulo_int_def)
qed

lemma rotateVertexNum_mod:
  assumes "0 \<le> v" and "rotations \<le> n" and "0 < n"
  shows "rotateVertexNum n v rotations = (v + n - rotations) mod n"
  using assms by (simp add: rotateVertexNum_def smod_nonneg)

subsection \<open>The loop of \<^verbatim>\<open>vertexRotations\<close>\<close>

lemma loop_past_end:
  assumes "MAX_BASE_CELL_FACES \<le> i"
  shows "vertexRotations_loop c i = INVALID_ROTATIONS"
  using assms by (simp add: vertexRotations_loop.simps [of c i])

lemma loop_skip:
  assumes "i < MAX_BASE_CELL_FACES"
    and "face (baseCellVertexRotations ! baseCell c ! i) \<noteq> fijk_face c"
  shows "vertexRotations_loop c i = vertexRotations_loop c (i + 1)"
  using assms by (simp add: vertexRotations_loop.simps [of c i])

text \<open>What the loop returns at a slot whose face is the cell's face.\<close>

lemma loop_hit:
  assumes "i < MAX_BASE_CELL_FACES"
    and "face (baseCellVertexRotations ! baseCell c ! i) = fijk_face c"
  shows "vertexRotations_loop c i =
     (if isBaseCellPentagon (baseCell c) \<and> cellLeadingDigit c = JK_AXES_DIGIT \<and>
         fijk_face c = face (baseCellVertexRotations ! baseCell c ! (IK_AXES_DIGIT - 2))
      then (if ccwRot60 (baseCellVertexRotations ! baseCell c ! i) = 0 then 5
            else ccwRot60 (baseCellVertexRotations ! baseCell c ! i) - 1)
      else if isBaseCellPentagon (baseCell c) \<and> cellLeadingDigit c = IK_AXES_DIGIT \<and>
         fijk_face c = face (baseCellVertexRotations ! baseCell c ! (JK_AXES_DIGIT - 2))
      then (ccwRot60 (baseCellVertexRotations ! baseCell c ! i) + 1) mod 6
      else ccwRot60 (baseCellVertexRotations ! baseCell c ! i))"
proof -
  have "0 \<le> ccwRot60 (baseCellVertexRotations ! baseCell c ! i) + 1"
    if "isBaseCellPentagon (baseCell c)"
    using slot_ccwRot60_range [OF pentagon_in_table [OF that] assms(1)] by simp
  then have "(ccwRot60 (baseCellVertexRotations ! baseCell c ! i) + 1) smod 6 =
      (ccwRot60 (baseCellVertexRotations ! baseCell c ! i) + 1) mod 6"
    if "isBaseCellPentagon (baseCell c)"
    using that by (simp add: smod_nonneg)
  then show ?thesis
    using assms by (simp add: vertexRotations_loop.simps [of c i] Let_def)
qed

lemma loop_hit_range:
  assumes "baseCell c < NUM_BASE_CELLS" and "i < MAX_BASE_CELL_FACES"
    and "face (baseCellVertexRotations ! baseCell c ! i) = fijk_face c"
  shows "0 \<le> vertexRotations_loop c i \<and> vertexRotations_loop c i \<le> 5"
proof -
  have "0 \<le> ccwRot60 (baseCellVertexRotations ! baseCell c ! i) \<and>
        ccwRot60 (baseCellVertexRotations ! baseCell c ! i) \<le> 5"
    using assms(1,2) by (rule slot_ccwRot60_range)
  then show ?thesis
    unfolding loop_hit [OF assms(2,3)] by auto
qed

text \<open>The loop passes over the slots that do not match.\<close>

lemma loop_first_match:
  assumes "k \<le> MAX_BASE_CELL_FACES" and "i \<le> k"
    and "\<forall>j. i \<le> j \<and> j < k \<longrightarrow> face (baseCellVertexRotations ! baseCell c ! j) \<noteq> fijk_face c"
  shows "vertexRotations_loop c i = vertexRotations_loop c k"
  using assms(2,3)
proof (induction "k - i" arbitrary: i)
  case 0
  then show ?case by simp
next
  case (Suc n)
  then have "i < k" by simp
  with assms(1) have "i < MAX_BASE_CELL_FACES" by simp
  moreover from Suc.prems \<open>i < k\<close>
  have "face (baseCellVertexRotations ! baseCell c ! i) \<noteq> fijk_face c" by simp
  ultimately have "vertexRotations_loop c i = vertexRotations_loop c (i + 1)"
    by (rule loop_skip)
  moreover have "vertexRotations_loop c (i + 1) = vertexRotations_loop c k"
    using Suc.hyps(2) Suc.prems \<open>i < k\<close> by (intro Suc.hyps(1)) auto
  ultimately show ?case by simp
qed

lemma loop_no_match:
  assumes "\<forall>j < MAX_BASE_CELL_FACES.
      face (baseCellVertexRotations ! baseCell c ! j) \<noteq> fijk_face c"
  shows "vertexRotations_loop c 0 = INVALID_ROTATIONS"
proof -
  have "vertexRotations_loop c 0 = vertexRotations_loop c MAX_BASE_CELL_FACES"
    using assms by (intro loop_first_match) simp_all
  then show ?thesis by (simp add: loop_past_end)
qed

lemma first_match:
  assumes "k < MAX_BASE_CELL_FACES"
    and "face (baseCellVertexRotations ! baseCell c ! k) = fijk_face c"
  obtains m where "m < MAX_BASE_CELL_FACES"
    and "face (baseCellVertexRotations ! baseCell c ! m) = fijk_face c"
    and "\<forall>j. 0 \<le> j \<and> j < m \<longrightarrow> face (baseCellVertexRotations ! baseCell c ! j) \<noteq> fijk_face c"
proof -
  define m where "m = (LEAST j. j < MAX_BASE_CELL_FACES \<and>
      face (baseCellVertexRotations ! baseCell c ! j) = fijk_face c)"
  from assms have ex: "\<exists>j. j < MAX_BASE_CELL_FACES \<and>
      face (baseCellVertexRotations ! baseCell c ! j) = fijk_face c" by blast
  from LeastI_ex [OF ex] have m: "m < MAX_BASE_CELL_FACES"
      "face (baseCellVertexRotations ! baseCell c ! m) = fijk_face c"
    unfolding m_def by simp_all
  have "\<forall>j. 0 \<le> j \<and> j < m \<longrightarrow>
      face (baseCellVertexRotations ! baseCell c ! j) \<noteq> fijk_face c"
  proof (intro allI impI)
    fix j assume "0 \<le> j \<and> j < m"
    then have "j < m" by simp
    then have "\<not> (j < MAX_BASE_CELL_FACES \<and>
      face (baseCellVertexRotations ! baseCell c ! j) = fijk_face c)"
      unfolding m_def by (rule not_less_Least)
    with \<open>j < m\<close> m(1) show "face (baseCellVertexRotations ! baseCell c ! j) \<noteq> fijk_face c"
      by simp
  qed
  with m show ?thesis by (rule that)
qed

lemma loop_match_range:
  assumes "baseCell c < NUM_BASE_CELLS" and "i < MAX_BASE_CELL_FACES"
    and "face (baseCellVertexRotations ! baseCell c ! i) = fijk_face c"
  shows "0 \<le> vertexRotations_loop c 0 \<and> vertexRotations_loop c 0 \<le> 5"
proof -
  from assms(2,3) obtain m where m: "m < MAX_BASE_CELL_FACES"
    "face (baseCellVertexRotations ! baseCell c ! m) = fijk_face c"
    "\<forall>j. 0 \<le> j \<and> j < m \<longrightarrow> face (baseCellVertexRotations ! baseCell c ! j) \<noteq> fijk_face c"
    by (rule first_match)
  have "vertexRotations_loop c 0 = vertexRotations_loop c m"
    using m(1,3) by (intro loop_first_match) simp_all
  with loop_hit_range [OF assms(1) m(1,2)] show ?thesis by simp
qed

lemma loop_invalid_iff:
  assumes "baseCell c < NUM_BASE_CELLS"
  shows "vertexRotations_loop c 0 = INVALID_ROTATIONS \<longleftrightarrow>
     (\<forall>j < MAX_BASE_CELL_FACES. face (baseCellVertexRotations ! baseCell c ! j) \<noteq> fijk_face c)"
  using loop_match_range [OF assms] loop_no_match [of c]
  by (fastforce simp add: INVALID_ROTATIONS_def)

lemma loop_range:
  assumes "baseCell c < NUM_BASE_CELLS"
  shows "vertexRotations_loop c 0 = INVALID_ROTATIONS \<or>
     (0 \<le> vertexRotations_loop c 0 \<and> vertexRotations_loop c 0 \<le> 5)"
  using loop_match_range [OF assms] loop_no_match [of c] by blast

lemma vertexRotations_match_range:
  assumes "baseCell c < NUM_BASE_CELLS" and "i < MAX_BASE_CELL_FACES"
    and "face (baseCellVertexRotations ! baseCell c ! i) = fijk_face c"
  obtains rotations where "vertexRotations c = Some rotations"
    and "0 \<le> rotations" and "rotations \<le> 5"
  using loop_match_range [OF assms] assms(1) by (simp add: vertexRotations_def)

subsection \<open>The canonical tables and the accepted directions\<close>

lemma hex_entry_range:
  assumes "0 < d" and "d < INVALID_DIGIT"
  shows "0 \<le> directionToVertexNumHex ! d \<and> directionToVertexNumHex ! d \<le> 5"
proof -
  from assms have "d = 1 \<or> d = 2 \<or> d = 3 \<or> d = 4 \<or> d = 5 \<or> d = 6"
    by (auto simp add: INVALID_DIGIT_def)
  then show ?thesis
    by (elim disjE) (simp_all add: directionToVertexNumHex_def)
qed

lemma pent_entry_range:
  assumes "1 < d" and "d < INVALID_DIGIT"
  shows "0 \<le> directionToVertexNumPent ! d \<and> directionToVertexNumPent ! d \<le> 4"
proof -
  from assms have "d = 2 \<or> d = 3 \<or> d = 4 \<or> d = 5 \<or> d = 6"
    by (auto simp add: INVALID_DIGIT_def)
  then show ?thesis
    by (elim disjE) (simp_all add: directionToVertexNumPent_def)
qed

lemma vertexNumForDirection_accepted:
  assumes "direction \<noteq> CENTER_DIGIT" and "direction < INVALID_DIGIT"
    and "isPentagon origin \<longrightarrow> direction \<noteq> K_AXES_DIGIT"
    and "vertexRotations origin = Some rotations"
    and "0 \<le> rotations" and "rotations \<le> 5"
  shows "vertexNumForDirection origin direction =
     Some (if isPentagon origin
           then (directionToVertexNumPent ! direction + 5 - rotations) mod 5
           else (directionToVertexNumHex ! direction + 6 - rotations) mod 6)"
proof (cases "isPentagon origin")
  case True
  with assms(1-3) have "1 < direction"
    by (simp add: CENTER_DIGIT_def K_AXES_DIGIT_def)
  then have "0 \<le> directionToVertexNumPent ! direction"
    using pent_entry_range assms(2) by simp
  then have "rotateVertexNum NUM_PENT_VERTS (directionToVertexNumPent ! direction) rotations =
      (directionToVertexNumPent ! direction + 5 - rotations) mod 5"
    using assms(6) by (simp add: rotateVertexNum_mod NUM_PENT_VERTS_def)
  with True assms show ?thesis
    by (simp add: vertexNumForDirection_def INVALID_ROTATIONS_def)
next
  case False
  from assms(1) have "0 < direction"
    by (simp add: CENTER_DIGIT_def)
  then have "0 \<le> directionToVertexNumHex ! direction"
    using hex_entry_range assms(2) by simp
  then have "rotateVertexNum NUM_HEX_VERTS (directionToVertexNumHex ! direction) rotations =
      (directionToVertexNumHex ! direction + 6 - rotations) mod 6"
    using assms(6) by (simp add: rotateVertexNum_mod NUM_HEX_VERTS_def)
  with False assms show ?thesis
    by (simp add: vertexNumForDirection_def INVALID_ROTATIONS_def)
qed

subsection \<open>A cell on a face its base cell does not have\<close>

text \<open>Base cell 0 lies on the faces 0, 1 and 2 only; no slot matches face 10.\<close>

lemma no_match_0_10:
  "vertexRotations \<lparr>fijk_face = 10, baseCell = 0, cellLeadingDigit = 0, isPentagon = False\<rparr>
     = Some INVALID_ROTATIONS"
proof -
  let ?c = "\<lparr>fijk_face = 10, baseCell = 0, cellLeadingDigit = 0, isPentagon = False\<rparr>"
  have "vertexRotations_loop ?c 0 = INVALID_ROTATIONS"
    by (intro loop_no_match)
      (auto simp add: MAX_BASE_CELL_FACES_def row_0 less_Suc_eq eval_nat_numeral)
  then show ?thesis
    by (simp add: vertexRotations_def NUM_BASE_CELLS_def)
qed

section \<open>The claims\<close>

text \<open>
  C1. For every cell whose base cell is a pentagon and has a face slot \<open>i\<close> matching the
  cell's face, with recorded rotation \<open>baseRot\<close>: if the leading digit is the JK axis and
  the face is the one of slot \<^verbatim>\<open>IK_AXES_DIGIT - 2\<close>, \<open>vertexRotations\<close> returns
  \<open>baseRot\<close> rotated one step clockwise (5 for 0, else \<open>baseRot - 1\<close>); else if the leading
  digit is the IK axis and the face is the one of slot \<^verbatim>\<open>JK_AXES_DIGIT - 2\<close>, it
  returns \<open>(baseRot + 1) mod 6\<close>; otherwise it returns \<open>baseRot\<close>.
\<close>

theorem vertexRotations_pentagon_crossing:
  assumes "isBaseCellPentagon (baseCell c)"
    and "i < MAX_BASE_CELL_FACES"
    and "face (baseCellVertexRotations ! baseCell c ! i) = fijk_face c"
    and "baseRot = ccwRot60 (baseCellVertexRotations ! baseCell c ! i)"
  shows "vertexRotations c = Some
     (if cellLeadingDigit c = JK_AXES_DIGIT \<and>
         fijk_face c = face (baseCellVertexRotations ! baseCell c ! (IK_AXES_DIGIT - 2))
      then (if baseRot = 0 then 5 else baseRot - 1)
      else if cellLeadingDigit c = IK_AXES_DIGIT \<and>
         fijk_face c = face (baseCellVertexRotations ! baseCell c ! (JK_AXES_DIGIT - 2))
      then (baseRot + 1) mod 6
      else baseRot)"
proof -
  have in_table: "baseCell c < NUM_BASE_CELLS"
    using assms(1) by (rule pentagon_in_table)
  have len: "length (baseCellVertexRotations ! baseCell c) = MAX_BASE_CELL_FACES"
    using in_table by (rule row_length)
  have dist: "distinct (map face (baseCellVertexRotations ! baseCell c))"
    using assms(1) by (rule pentagon_row_distinct)
  have first: "\<forall>j. 0 \<le> j \<and> j < i \<longrightarrow>
      face (baseCellVertexRotations ! baseCell c ! j) \<noteq> fijk_face c"
  proof (intro allI impI)
    fix j assume "0 \<le> j \<and> j < i"
    then have "j < i" by simp
    with assms(2) len have "j < length (map face (baseCellVertexRotations ! baseCell c))"
      and "i < length (map face (baseCellVertexRotations ! baseCell c))" by simp_all
    then have "map face (baseCellVertexRotations ! baseCell c) ! j \<noteq>
          map face (baseCellVertexRotations ! baseCell c) ! i"
      using \<open>j < i\<close> nth_eq_iff_index_eq [OF dist, of j i] by simp
    with assms(2,3) \<open>j < i\<close> len
    show "face (baseCellVertexRotations ! baseCell c ! j) \<noteq> fijk_face c" by simp
  qed
  have "vertexRotations_loop c 0 = vertexRotations_loop c i"
    using assms(2) first by (intro loop_first_match) simp_all
  then show ?thesis
    using assms(1,4) in_table
    by (simp add: vertexRotations_def loop_hit [OF assms(2,3)])
qed

text \<open>
  A cell of pentagon base cell 4 with leading digit JK on face 1, the face of the slot
  indexed by the IK axis, where the table records 2 rotations: the result is 1.
\<close>

theorem vertexRotations_pentagon_crossing_witness:
  "isBaseCellPentagon
     (baseCell \<lparr>fijk_face = 1, baseCell = 4, cellLeadingDigit = 3, isPentagon = False\<rparr>)
   \<and> (3::nat) < MAX_BASE_CELL_FACES
   \<and> face (baseCellVertexRotations ! 4 ! 3) = 1
   \<and> ccwRot60 (baseCellVertexRotations ! 4 ! 3) = 2
   \<and> vertexRotations \<lparr>fijk_face = 1, baseCell = 4, cellLeadingDigit = 3, isPentagon = False\<rparr>
       = Some 1"
proof -
  let ?c = "\<lparr>fijk_face = 1, baseCell = 4, cellLeadingDigit = 3, isPentagon = False\<rparr>"
  have p: "isBaseCellPentagon (baseCell ?c)"
    by (simp add: isBaseCellPentagon_def)
  have i: "(3::nat) < MAX_BASE_CELL_FACES"
    by (simp add: MAX_BASE_CELL_FACES_def)
  have f: "face (baseCellVertexRotations ! baseCell ?c ! 3) = fijk_face ?c"
    by (simp add: row_4)
  have r: "2 = ccwRot60 (baseCellVertexRotations ! baseCell ?c ! 3)"
    by (simp add: row_4)
  have "vertexRotations ?c = Some 1"
    using vertexRotations_pentagon_crossing [OF p i f r]
    by (simp add: row_4 JK_AXES_DIGIT_def IK_AXES_DIGIT_def)
  with p i f r show ?thesis by simp
qed

text \<open>
  C2. For a cell whose base cell has a face slot matching the cell's face: if the cell is
  not a pentagon, \<open>vertexNumForDirection\<close> returns a number in \<open>[0,5]\<close> for each of the
  directions K, J, JK, I and IK; if the cell is a pentagon, it returns a number in
  \<open>[0,4]\<close> for each of the directions J, JK, I and IK.
\<close>

theorem vertexNumForDirection_in_range:
  assumes "baseCell c < NUM_BASE_CELLS"
    and "i < MAX_BASE_CELL_FACES"
    and "face (baseCellVertexRotations ! baseCell c ! i) = fijk_face c"
  shows "(\<not> isPentagon c \<and>
          d \<in> {K_AXES_DIGIT, J_AXES_DIGIT, JK_AXES_DIGIT, I_AXES_DIGIT, IK_AXES_DIGIT} \<longrightarrow>
            (\<exists>v. vertexNumForDirection c d = Some v \<and> 0 \<le> v \<and> v \<le> 5)) \<and>
         (isPentagon c \<and>
          d \<in> {J_AXES_DIGIT, JK_AXES_DIGIT, I_AXES_DIGIT, IK_AXES_DIGIT} \<longrightarrow>
            (\<exists>v. vertexNumForDirection c d = Some v \<and> 0 \<le> v \<and> v \<le> 4))"
proof -
  from assms obtain rotations where rot: "vertexRotations c = Some rotations"
    "0 \<le> rotations" "rotations \<le> 5"
    by (rule vertexRotations_match_range)
  have hex: "\<exists>v. vertexNumForDirection c d = Some v \<and> 0 \<le> v \<and> v \<le> 5"
    if "\<not> isPentagon c"
      and "d \<in> {K_AXES_DIGIT, J_AXES_DIGIT, JK_AXES_DIGIT, I_AXES_DIGIT, IK_AXES_DIGIT}"
  proof -
    from that(2) have d: "d \<noteq> CENTER_DIGIT" "d < INVALID_DIGIT"
      by (auto simp add: CENTER_DIGIT_def K_AXES_DIGIT_def J_AXES_DIGIT_def JK_AXES_DIGIT_def
          I_AXES_DIGIT_def IK_AXES_DIGIT_def INVALID_DIGIT_def)
    with that(1) rot have "vertexNumForDirection c d =
        Some ((directionToVertexNumHex ! d + 6 - rotations) mod 6)"
      by (simp add: vertexNumForDirection_accepted)
    then show ?thesis by simp
  qed
  have pent: "\<exists>v. vertexNumForDirection c d = Some v \<and> 0 \<le> v \<and> v \<le> 4"
    if "isPentagon c"
      and "d \<in> {J_AXES_DIGIT, JK_AXES_DIGIT, I_AXES_DIGIT, IK_AXES_DIGIT}"
  proof -
    from that(2) have d: "d \<noteq> CENTER_DIGIT" "d < INVALID_DIGIT" "d \<noteq> K_AXES_DIGIT"
      by (auto simp add: CENTER_DIGIT_def K_AXES_DIGIT_def J_AXES_DIGIT_def JK_AXES_DIGIT_def
          I_AXES_DIGIT_def IK_AXES_DIGIT_def INVALID_DIGIT_def)
    with that(1) rot have "vertexNumForDirection c d =
        Some ((directionToVertexNumPent ! d + 5 - rotations) mod 5)"
      by (simp add: vertexNumForDirection_accepted)
    then show ?thesis by simp
  qed
  from hex pent show ?thesis by blast
qed

text \<open>
  The pentagon cell of base cell 4 on face 2 in direction IK, and a hexagon cell of
  base cell 0 on face 2 in direction K.
\<close>

theorem vertexNumForDirection_in_range_witness:
  "baseCell \<lparr>fijk_face = 2, baseCell = 4, cellLeadingDigit = 0, isPentagon = True\<rparr>
     < NUM_BASE_CELLS
   \<and> (2::nat) < MAX_BASE_CELL_FACES
   \<and> face (baseCellVertexRotations ! 4 ! 2) = 2
   \<and> IK_AXES_DIGIT \<in> {J_AXES_DIGIT, JK_AXES_DIGIT, I_AXES_DIGIT, IK_AXES_DIGIT}
   \<and> (\<exists>v. vertexNumForDirection
            \<lparr>fijk_face = 2, baseCell = 4, cellLeadingDigit = 0, isPentagon = True\<rparr>
            IK_AXES_DIGIT = Some v \<and> 0 \<le> v \<and> v \<le> 4)
   \<and> baseCell \<lparr>fijk_face = 2, baseCell = 0, cellLeadingDigit = 1, isPentagon = False\<rparr>
     < NUM_BASE_CELLS
   \<and> face (baseCellVertexRotations ! 0 ! 2) = 2
   \<and> K_AXES_DIGIT \<in> {K_AXES_DIGIT, J_AXES_DIGIT, JK_AXES_DIGIT, I_AXES_DIGIT, IK_AXES_DIGIT}
   \<and> (\<exists>v. vertexNumForDirection
            \<lparr>fijk_face = 2, baseCell = 0, cellLeadingDigit = 1, isPentagon = False\<rparr>
            K_AXES_DIGIT = Some v \<and> 0 \<le> v \<and> v \<le> 5)"
proof -
  let ?p = "\<lparr>fijk_face = 2, baseCell = 4, cellLeadingDigit = 0, isPentagon = True\<rparr>"
  let ?h = "\<lparr>fijk_face = 2, baseCell = 0, cellLeadingDigit = 1, isPentagon = False\<rparr>"
  have i: "(2::nat) < MAX_BASE_CELL_FACES"
    by (simp add: MAX_BASE_CELL_FACES_def)
  have bp: "baseCell ?p < NUM_BASE_CELLS" and bh: "baseCell ?h < NUM_BASE_CELLS"
    by (simp_all add: NUM_BASE_CELLS_def)
  have fp: "face (baseCellVertexRotations ! baseCell ?p ! 2) = fijk_face ?p"
    by (simp add: row_4)
  have fh: "face (baseCellVertexRotations ! baseCell ?h ! 2) = fijk_face ?h"
    by (simp add: row_0)
  have dp: "IK_AXES_DIGIT \<in> {J_AXES_DIGIT, JK_AXES_DIGIT, I_AXES_DIGIT, IK_AXES_DIGIT}"
    and dh: "K_AXES_DIGIT \<in> {K_AXES_DIGIT, J_AXES_DIGIT, JK_AXES_DIGIT, I_AXES_DIGIT, IK_AXES_DIGIT}"
    by simp_all
  have "\<exists>v. vertexNumForDirection ?p IK_AXES_DIGIT = Some v \<and> 0 \<le> v \<and> v \<le> 4"
    using vertexNumForDirection_in_range [OF bp i fp, of IK_AXES_DIGIT] dp by simp
  moreover
  have "\<exists>v. vertexNumForDirection ?h K_AXES_DIGIT = Some v \<and> 0 \<le> v \<and> v \<le> 5"
    using vertexNumForDirection_in_range [OF bh i fh, of K_AXES_DIGIT] dh by simp
  ultimately show ?thesis
    using i bp bh fp fh dp dh by simp
qed

text \<open>
  C3 (as amended). For every cell, \<open>vertexNumForDirection\<close> returns
  \<^verbatim>\<open>INVALID_VERTEX_NUM\<close> when the direction is the centre, when its ordinal is
  \<^verbatim>\<open>INVALID_DIGIT\<close> or more, or when the direction is the K axis and the cell itself is a
  pentagon (\<^verbatim>\<open>h3IsPentagon\<close>). Nothing is assumed of the base cell, so the rotations and
  the tables are not consulted: the result is the same where \<open>vertexRotations\<close> has
  none.
\<close>

theorem vertexNumForDirection_rejects:
  assumes "direction = CENTER_DIGIT \<or> INVALID_DIGIT \<le> direction \<or>
           (isPentagon origin \<and> direction = K_AXES_DIGIT)"
  shows "vertexNumForDirection origin direction = Some INVALID_VERTEX_NUM"
  using assms by (auto simp add: vertexNumForDirection_def)

text \<open>
  The pentagon cell of base cell 4 in direction K; and a cell whose base cell number 127
  is outside the table, for which \<open>vertexRotations\<close> has no result, in the directions
  \<^verbatim>\<open>CENTER_DIGIT\<close> and \<^verbatim>\<open>INVALID_DIGIT\<close>.
\<close>

theorem vertexNumForDirection_rejects_witness:
  "vertexNumForDirection \<lparr>fijk_face = 0, baseCell = 4, cellLeadingDigit = 0, isPentagon = True\<rparr>
     K_AXES_DIGIT = Some INVALID_VERTEX_NUM
   \<and> vertexRotations \<lparr>fijk_face = 0, baseCell = 127, cellLeadingDigit = 0, isPentagon = False\<rparr>
     = None
   \<and> vertexNumForDirection
       \<lparr>fijk_face = 0, baseCell = 127, cellLeadingDigit = 0, isPentagon = False\<rparr>
       CENTER_DIGIT = Some INVALID_VERTEX_NUM
   \<and> vertexNumForDirection
       \<lparr>fijk_face = 0, baseCell = 127, cellLeadingDigit = 0, isPentagon = False\<rparr>
       INVALID_DIGIT = Some INVALID_VERTEX_NUM"
  using vertexNumForDirection_rejects
      [of K_AXES_DIGIT "\<lparr>fijk_face = 0, baseCell = 4, cellLeadingDigit = 0, isPentagon = True\<rparr>"]
    vertexNumForDirection_rejects
      [of CENTER_DIGIT "\<lparr>fijk_face = 0, baseCell = 127, cellLeadingDigit = 0, isPentagon = False\<rparr>"]
    vertexNumForDirection_rejects
      [of INVALID_DIGIT "\<lparr>fijk_face = 0, baseCell = 127, cellLeadingDigit = 0, isPentagon = False\<rparr>"]
  by (simp add: vertexRotations_def NUM_BASE_CELLS_def)

text \<open>
  C3 as stated fails for the cells of a pentagon base cell that are not pentagons
  themselves: the test of the K axis asks \<^verbatim>\<open>h3IsPentagon\<close> of the cell, not
  \<^verbatim>\<open>_isBaseCellPentagon\<close> of its base cell. A hexagon cell of pentagon base cell 4 with
  leading digit JK on face 0 has 0 rotations and gets vertex 3 for the K axis.
\<close>

theorem vertexNumForDirection_K_axis_counterexample:
  "isBaseCellPentagon
     (baseCell \<lparr>fijk_face = 0, baseCell = 4, cellLeadingDigit = 3, isPentagon = False\<rparr>)
   \<and> vertexNumForDirection
       \<lparr>fijk_face = 0, baseCell = 4, cellLeadingDigit = 3, isPentagon = False\<rparr> K_AXES_DIGIT
     = Some 3
   \<and> Some 3 \<noteq> Some INVALID_VERTEX_NUM"
proof -
  let ?c = "\<lparr>fijk_face = 0, baseCell = 4, cellLeadingDigit = 3, isPentagon = False\<rparr>"
  have "vertexRotations_loop ?c 0 = vertexRotations_loop ?c 1"
    using loop_skip [of 0 ?c] by (simp add: MAX_BASE_CELL_FACES_def row_4)
  also have "\<dots> = 0"
    using loop_hit [of 1 ?c]
    by (simp add: MAX_BASE_CELL_FACES_def row_4 JK_AXES_DIGIT_def IK_AXES_DIGIT_def)
  finally have "vertexRotations ?c = Some 0"
    by (simp add: vertexRotations_def NUM_BASE_CELLS_def)
  then have "vertexNumForDirection ?c K_AXES_DIGIT = Some 3"
    by (simp add: vertexNumForDirection_def K_AXES_DIGIT_def CENTER_DIGIT_def INVALID_DIGIT_def
        INVALID_ROTATIONS_def rotateVertexNum_def NUM_HEX_VERTS_def directionToVertexNumHex_def
        signed_modulo_int_def)
  then show ?thesis
    by (simp add: isBaseCellPentagon_def INVALID_VERTEX_NUM_def)
qed

text \<open>
  C4. The direction with ordinal 6, the IJ axis, is not rejected: for every cell, hexagon
  or pentagon, whose base cell has a face slot matching the cell's face,
  \<open>vertexNumForDirection\<close> returns canonical vertex 0 rotated by the cell's rotations,
  \<open>(0 + 6 - rotations) mod 6\<close> for a hexagon and \<open>(0 + 5 - rotations) mod 5\<close> for a
  pentagon, a vertex number in range and not \<^verbatim>\<open>INVALID_VERTEX_NUM\<close>.
\<close>

theorem vertexNumForDirection_IJ_axis:
  assumes "baseCell c < NUM_BASE_CELLS"
    and "i < MAX_BASE_CELL_FACES"
    and "face (baseCellVertexRotations ! baseCell c ! i) = fijk_face c"
  shows "\<exists>rotations v. vertexRotations c = Some rotations \<and>
           vertexNumForDirection c IJ_AXES_DIGIT = Some v \<and>
           v = (if isPentagon c then (0 + 5 - rotations) mod 5 else (0 + 6 - rotations) mod 6) \<and>
           0 \<le> v \<and> v \<le> (if isPentagon c then 4 else 5) \<and> v \<noteq> INVALID_VERTEX_NUM"
proof -
  from assms obtain rotations where rot: "vertexRotations c = Some rotations"
    "0 \<le> rotations" "rotations \<le> 5"
    by (rule vertexRotations_match_range)
  have "vertexNumForDirection c IJ_AXES_DIGIT =
      Some (if isPentagon c
            then (directionToVertexNumPent ! IJ_AXES_DIGIT + 5 - rotations) mod 5
            else (directionToVertexNumHex ! IJ_AXES_DIGIT + 6 - rotations) mod 6)"
    using rot by (intro vertexNumForDirection_accepted)
      (simp_all add: IJ_AXES_DIGIT_def CENTER_DIGIT_def INVALID_DIGIT_def K_AXES_DIGIT_def)
  moreover have "directionToVertexNumPent ! IJ_AXES_DIGIT = 0"
    and "directionToVertexNumHex ! IJ_AXES_DIGIT = 0"
    by (simp_all add: IJ_AXES_DIGIT_def directionToVertexNumPent_def directionToVertexNumHex_def)
  ultimately have "vertexNumForDirection c IJ_AXES_DIGIT =
      Some (if isPentagon c then (0 + 5 - rotations) mod 5 else (0 + 6 - rotations) mod 6)"
    by simp
  with rot(1) show ?thesis
    by (auto simp add: INVALID_VERTEX_NUM_def)
qed

text \<open>The pentagon cell of base cell 4 on face 2: 3 rotations, vertex 2.\<close>

theorem vertexNumForDirection_IJ_axis_witness:
  "baseCell \<lparr>fijk_face = 2, baseCell = 4, cellLeadingDigit = 0, isPentagon = True\<rparr>
     < NUM_BASE_CELLS
   \<and> (2::nat) < MAX_BASE_CELL_FACES
   \<and> face (baseCellVertexRotations ! 4 ! 2) = 2
   \<and> vertexRotations \<lparr>fijk_face = 2, baseCell = 4, cellLeadingDigit = 0, isPentagon = True\<rparr>
       = Some 3
   \<and> vertexNumForDirection
       \<lparr>fijk_face = 2, baseCell = 4, cellLeadingDigit = 0, isPentagon = True\<rparr> IJ_AXES_DIGIT
       = Some 2"
proof -
  let ?p = "\<lparr>fijk_face = 2, baseCell = 4, cellLeadingDigit = 0, isPentagon = True\<rparr>"
  have i: "(2::nat) < MAX_BASE_CELL_FACES"
    by (simp add: MAX_BASE_CELL_FACES_def)
  have b: "baseCell ?p < NUM_BASE_CELLS"
    by (simp add: NUM_BASE_CELLS_def)
  have f: "face (baseCellVertexRotations ! baseCell ?p ! 2) = fijk_face ?p"
    by (simp add: row_4)
  have "vertexRotations_loop ?p 0 = vertexRotations_loop ?p 2"
    by (intro loop_first_match)
      (auto simp add: MAX_BASE_CELL_FACES_def row_4 less_Suc_eq numeral_2_eq_2)
  also have "\<dots> = 3"
    using loop_hit [of 2 ?p]
    by (simp add: MAX_BASE_CELL_FACES_def row_4 JK_AXES_DIGIT_def IK_AXES_DIGIT_def)
  finally have r: "vertexRotations ?p = Some 3"
    by (simp add: vertexRotations_def NUM_BASE_CELLS_def)
  with vertexNumForDirection_IJ_axis [OF b i f]
  have "vertexNumForDirection ?p IJ_AXES_DIGIT = Some 2" by simp
  with i b f r show ?thesis by simp
qed

text \<open>
  C5. For every cell and every direction that is not rejected, the result of
  \<open>vertexNumForDirection\<close> is \<open>(canonicalVertex + modulus - rotations) mod modulus\<close>,
  where \<open>rotations\<close> is the rotation count that \<open>vertexRotations\<close> returns for the cell,
  with the entry of the hexagon table and modulus 6 for a cell that is not a pentagon,
  and the entry of the pentagon table and modulus 5 for a pentagon. In particular a
  hexagon cell with 0 rotations gets the J axis entry of the hexagon table unchanged.
  The formula is the last step of the function: it applies to the rotation count of a
  cell, that is where \<open>vertexRotations\<close> has found the cell's face among the slots of
  its base cell and has not returned \<^verbatim>\<open>INVALID_ROTATIONS\<close>, the case the source marks
  as not reachable and answers with \<^verbatim>\<open>INVALID_VERTEX_NUM\<close> one step earlier.
\<close>

theorem vertexNumForDirection_formula:
  assumes "direction \<noteq> CENTER_DIGIT" and "direction < INVALID_DIGIT"
    and "\<not> (isPentagon origin \<and> direction = K_AXES_DIGIT)"
    and "vertexRotations origin = Some rotations"
    and "rotations \<noteq> INVALID_ROTATIONS"
  shows "vertexNumForDirection origin direction =
           Some (if isPentagon origin
                 then (directionToVertexNumPent ! direction + 5 - rotations) mod 5
                 else (directionToVertexNumHex ! direction + 6 - rotations) mod 6) \<and>
         (\<not> isPentagon origin \<and> rotations = 0 \<and> direction = J_AXES_DIGIT \<longrightarrow>
            vertexNumForDirection origin direction = Some (directionToVertexNumHex ! J_AXES_DIGIT))"
proof -
  from assms(4) have in_table: "baseCell origin < NUM_BASE_CELLS"
    and loop: "rotations = vertexRotations_loop origin 0"
    by (simp_all add: vertexRotations_def split: if_splits)
  with loop_range [OF in_table] assms(5) have range: "0 \<le> rotations" "rotations \<le> 5"
    by simp_all
  have eq: "vertexNumForDirection origin direction =
           Some (if isPentagon origin
                 then (directionToVertexNumPent ! direction + 5 - rotations) mod 5
                 else (directionToVertexNumHex ! direction + 6 - rotations) mod 6)"
    using assms(1-4) range by (intro vertexNumForDirection_accepted) simp_all
  moreover have "vertexNumForDirection origin direction =
      Some (directionToVertexNumHex ! J_AXES_DIGIT)"
    if "\<not> isPentagon origin" and "rotations = 0" and "direction = J_AXES_DIGIT"
    using eq that by (simp add: J_AXES_DIGIT_def directionToVertexNumHex_def)
  ultimately show ?thesis by blast
qed

text \<open>A hexagon cell of base cell 0 on face 1: 0 rotations, and vertex 1 for the J axis.\<close>

theorem vertexNumForDirection_formula_witness:
  "J_AXES_DIGIT \<noteq> CENTER_DIGIT \<and> J_AXES_DIGIT < INVALID_DIGIT
   \<and> vertexRotations \<lparr>fijk_face = 1, baseCell = 0, cellLeadingDigit = 0, isPentagon = False\<rparr>
       = Some 0
   \<and> 0 \<noteq> INVALID_ROTATIONS
   \<and> vertexNumForDirection
       \<lparr>fijk_face = 1, baseCell = 0, cellLeadingDigit = 0, isPentagon = False\<rparr> J_AXES_DIGIT
       = Some 1
   \<and> directionToVertexNumHex ! J_AXES_DIGIT = 1"
proof -
  let ?c = "\<lparr>fijk_face = 1, baseCell = 0, cellLeadingDigit = 0, isPentagon = False\<rparr>"
  have d: "J_AXES_DIGIT \<noteq> CENTER_DIGIT" "J_AXES_DIGIT < INVALID_DIGIT"
    "\<not> (isPentagon ?c \<and> J_AXES_DIGIT = K_AXES_DIGIT)"
    by (simp_all add: J_AXES_DIGIT_def CENTER_DIGIT_def INVALID_DIGIT_def)
  have "vertexRotations_loop ?c 0 = vertexRotations_loop ?c 1"
    using loop_skip [of 0 ?c] by (simp add: MAX_BASE_CELL_FACES_def row_0)
  also have "\<dots> = 0"
    using loop_hit [of 1 ?c]
    by (simp add: MAX_BASE_CELL_FACES_def row_0 isBaseCellPentagon_def)
  finally have r: "vertexRotations ?c = Some 0"
    by (simp add: vertexRotations_def NUM_BASE_CELLS_def)
  have n: "0 \<noteq> INVALID_ROTATIONS"
    by (simp add: INVALID_ROTATIONS_def)
  have t: "directionToVertexNumHex ! J_AXES_DIGIT = 1"
    by (simp add: J_AXES_DIGIT_def directionToVertexNumHex_def)
  from vertexNumForDirection_formula [OF d r n] t
  have "vertexNumForDirection ?c J_AXES_DIGIT = Some 1" by simp
  with d r n t show ?thesis by simp
qed

text \<open>
  C6. For every cell of a base cell of the table, \<open>vertexRotations\<close> returns a number
  in \<open>[0,5]\<close> or \<^verbatim>\<open>INVALID_ROTATIONS\<close>; and when the cell's face is the face of a slot in
  use (face not \<open>-1\<close>) of its base cell, the result is in \<open>[0,5]\<close> and not
  \<^verbatim>\<open>INVALID_ROTATIONS\<close>.
\<close>

theorem vertexRotations_range:
  assumes "baseCell c < NUM_BASE_CELLS"
  shows "(\<exists>v. vertexRotations c = Some v \<and> ((0 \<le> v \<and> v \<le> 5) \<or> v = INVALID_ROTATIONS)) \<and>
         (\<forall>i < MAX_BASE_CELL_FACES.
            face (baseCellVertexRotations ! baseCell c ! i) \<noteq> - 1 \<and>
            face (baseCellVertexRotations ! baseCell c ! i) = fijk_face c \<longrightarrow>
              (\<exists>v. vertexRotations c = Some v \<and> 0 \<le> v \<and> v \<le> 5 \<and> v \<noteq> INVALID_ROTATIONS))"
proof -
  have "\<exists>v. vertexRotations c = Some v \<and> ((0 \<le> v \<and> v \<le> 5) \<or> v = INVALID_ROTATIONS)"
    using loop_range [OF assms] assms by (auto simp add: vertexRotations_def)
  moreover have "\<exists>v. vertexRotations c = Some v \<and> 0 \<le> v \<and> v \<le> 5 \<and> v \<noteq> INVALID_ROTATIONS"
    if "i < MAX_BASE_CELL_FACES"
      and "face (baseCellVertexRotations ! baseCell c ! i) = fijk_face c" for i
    using loop_match_range [OF assms that] assms
    by (auto simp add: vertexRotations_def INVALID_ROTATIONS_def)
  ultimately show ?thesis by blast
qed

text \<open>A cell of base cell 0 on face 2, the face of its third slot.\<close>

theorem vertexRotations_range_witness:
  "baseCell \<lparr>fijk_face = 2, baseCell = 0, cellLeadingDigit = 2, isPentagon = False\<rparr>
     < NUM_BASE_CELLS
   \<and> (2::nat) < MAX_BASE_CELL_FACES
   \<and> face (baseCellVertexRotations ! 0 ! 2) \<noteq> - 1
   \<and> face (baseCellVertexRotations ! 0 ! 2) = 2
   \<and> (\<exists>v. vertexRotations \<lparr>fijk_face = 2, baseCell = 0, cellLeadingDigit = 2, isPentagon = False\<rparr>
            = Some v \<and> 0 \<le> v \<and> v \<le> 5 \<and> v \<noteq> INVALID_ROTATIONS)"
proof -
  let ?c = "\<lparr>fijk_face = 2, baseCell = 0, cellLeadingDigit = 2, isPentagon = False\<rparr>"
  have b: "baseCell ?c < NUM_BASE_CELLS"
    by (simp add: NUM_BASE_CELLS_def)
  have i: "(2::nat) < MAX_BASE_CELL_FACES"
    by (simp add: MAX_BASE_CELL_FACES_def)
  have f: "face (baseCellVertexRotations ! baseCell ?c ! 2) \<noteq> - 1"
    "face (baseCellVertexRotations ! baseCell ?c ! 2) = fijk_face ?c"
    by (simp_all add: row_0)
  from vertexRotations_range [OF b] i f
  have "\<exists>v. vertexRotations ?c = Some v \<and> 0 \<le> v \<and> v \<le> 5 \<and> v \<noteq> INVALID_ROTATIONS"
    by blast
  with b i f show ?thesis by simp
qed

text \<open>
  C7. For every cell of a base cell of the table, \<open>vertexRotations\<close> returns
  \<^verbatim>\<open>INVALID_ROTATIONS\<close> if and only if no face slot of the base cell has the cell's face
  (for a cell on a face other than \<open>-1\<close>: if and only if no slot in use has it); and
  when it does and the direction is not rejected, \<open>vertexNumForDirection\<close> returns
  \<^verbatim>\<open>INVALID_VERTEX_NUM\<close>.
\<close>

theorem vertexRotations_invalid_iff:
  assumes "baseCell c < NUM_BASE_CELLS"
  shows "(vertexRotations c = Some INVALID_ROTATIONS \<longleftrightarrow>
            (\<forall>i < MAX_BASE_CELL_FACES.
               face (baseCellVertexRotations ! baseCell c ! i) \<noteq> fijk_face c)) \<and>
         (fijk_face c \<noteq> - 1 \<longrightarrow>
            (vertexRotations c = Some INVALID_ROTATIONS \<longleftrightarrow>
               (\<forall>i < MAX_BASE_CELL_FACES.
                  \<not> (face (baseCellVertexRotations ! baseCell c ! i) \<noteq> - 1 \<and>
                     face (baseCellVertexRotations ! baseCell c ! i) = fijk_face c)))) \<and>
         (vertexRotations c = Some INVALID_ROTATIONS \<and>
          \<not> (d = CENTER_DIGIT \<or> INVALID_DIGIT \<le> d \<or> (isPentagon c \<and> d = K_AXES_DIGIT)) \<longrightarrow>
            vertexNumForDirection c d = Some INVALID_VERTEX_NUM)"
proof -
  have iff: "vertexRotations c = Some INVALID_ROTATIONS \<longleftrightarrow>
      (\<forall>i < MAX_BASE_CELL_FACES.
         face (baseCellVertexRotations ! baseCell c ! i) \<noteq> fijk_face c)"
    using loop_invalid_iff [OF assms] assms by (simp add: vertexRotations_def)
  moreover have "vertexRotations c = Some INVALID_ROTATIONS \<longleftrightarrow>
      (\<forall>i < MAX_BASE_CELL_FACES.
         \<not> (face (baseCellVertexRotations ! baseCell c ! i) \<noteq> - 1 \<and>
            face (baseCellVertexRotations ! baseCell c ! i) = fijk_face c))"
    if "fijk_face c \<noteq> - 1"
    unfolding iff using that by metis
  moreover have "vertexNumForDirection c d = Some INVALID_VERTEX_NUM"
    if "vertexRotations c = Some INVALID_ROTATIONS"
    using that by (simp add: vertexNumForDirection_def)
  ultimately show ?thesis by blast
qed

text \<open>A cell of base cell 0 on face 10, and the J axis.\<close>

theorem vertexRotations_invalid_iff_witness:
  "baseCell \<lparr>fijk_face = 10, baseCell = 0, cellLeadingDigit = 0, isPentagon = False\<rparr>
     < NUM_BASE_CELLS
   \<and> vertexRotations \<lparr>fijk_face = 10, baseCell = 0, cellLeadingDigit = 0, isPentagon = False\<rparr>
       = Some INVALID_ROTATIONS
   \<and> face (baseCellVertexRotations ! 0 ! 0) \<noteq> 10
   \<and> face (baseCellVertexRotations ! 0 ! 1) \<noteq> 10
   \<and> face (baseCellVertexRotations ! 0 ! 2) \<noteq> 10
   \<and> face (baseCellVertexRotations ! 0 ! 3) \<noteq> 10
   \<and> face (baseCellVertexRotations ! 0 ! 4) \<noteq> 10
   \<and> J_AXES_DIGIT \<noteq> CENTER_DIGIT \<and> J_AXES_DIGIT < INVALID_DIGIT
   \<and> J_AXES_DIGIT \<noteq> K_AXES_DIGIT
   \<and> vertexNumForDirection
       \<lparr>fijk_face = 10, baseCell = 0, cellLeadingDigit = 0, isPentagon = False\<rparr> J_AXES_DIGIT
       = Some INVALID_VERTEX_NUM"
proof -
  let ?c = "\<lparr>fijk_face = 10, baseCell = 0, cellLeadingDigit = 0, isPentagon = False\<rparr>"
  have b: "baseCell ?c < NUM_BASE_CELLS"
    by (simp add: NUM_BASE_CELLS_def)
  have d: "J_AXES_DIGIT \<noteq> CENTER_DIGIT" "J_AXES_DIGIT < INVALID_DIGIT"
    "J_AXES_DIGIT \<noteq> K_AXES_DIGIT"
    by (simp_all add: J_AXES_DIGIT_def CENTER_DIGIT_def INVALID_DIGIT_def K_AXES_DIGIT_def)
  note inst = vertexRotations_invalid_iff [OF b, of J_AXES_DIGIT]
  from inst no_match_0_10
  have "\<forall>i < MAX_BASE_CELL_FACES. face (baseCellVertexRotations ! 0 ! i) \<noteq> 10"
    by simp
  then have "face (baseCellVertexRotations ! 0 ! 0) \<noteq> 10"
    and "face (baseCellVertexRotations ! 0 ! 1) \<noteq> 10"
    and "face (baseCellVertexRotations ! 0 ! 2) \<noteq> 10"
    and "face (baseCellVertexRotations ! 0 ! 3) \<noteq> 10"
    and "face (baseCellVertexRotations ! 0 ! 4) \<noteq> 10"
    by (simp_all add: MAX_BASE_CELL_FACES_def)
  moreover from inst no_match_0_10 d
  have "vertexNumForDirection ?c J_AXES_DIGIT = Some INVALID_VERTEX_NUM"
    by simp
  ultimately show ?thesis
    using b d no_match_0_10 by simp
qed

text \<open>
  C8. For every pentagon base cell and every face, the two crossing corrections exclude
  each other: the face is not both the face of slot \<^verbatim>\<open>IK_AXES_DIGIT - 2\<close> (the
  clockwise correction, for leading digit JK) and the face of slot
  \<^verbatim>\<open>JK_AXES_DIGIT - 2\<close> (the counter-clockwise correction, for leading digit IK).
\<close>

theorem crossing_corrections_exclusive:
  assumes "isBaseCellPentagon b"
  shows "\<not> (f = face (baseCellVertexRotations ! b ! (IK_AXES_DIGIT - 2)) \<and>
            f = face (baseCellVertexRotations ! b ! (JK_AXES_DIGIT - 2)))"
proof -
  have len: "length (map face (baseCellVertexRotations ! b)) = MAX_BASE_CELL_FACES"
    using row_length [OF pentagon_in_table [OF assms]] by simp
  have "map face (baseCellVertexRotations ! b) ! (IK_AXES_DIGIT - 2) \<noteq>
        map face (baseCellVertexRotations ! b) ! (JK_AXES_DIGIT - 2)"
    using nth_eq_iff_index_eq [OF pentagon_row_distinct [OF assms],
        of "IK_AXES_DIGIT - 2" "JK_AXES_DIGIT - 2"] len
    by (simp add: IK_AXES_DIGIT_def JK_AXES_DIGIT_def MAX_BASE_CELL_FACES_def)
  then show ?thesis
    using len by (auto simp add: IK_AXES_DIGIT_def JK_AXES_DIGIT_def MAX_BASE_CELL_FACES_def)
qed

text \<open>Pentagon base cell 4 and face 1: the face of the first of the two slots only.\<close>

theorem crossing_corrections_exclusive_witness:
  "isBaseCellPentagon 4
   \<and> face (baseCellVertexRotations ! 4 ! (IK_AXES_DIGIT - 2)) = 1
   \<and> face (baseCellVertexRotations ! 4 ! (JK_AXES_DIGIT - 2)) = 0
   \<and> \<not> (1 = face (baseCellVertexRotations ! 4 ! (IK_AXES_DIGIT - 2)) \<and>
         1 = face (baseCellVertexRotations ! 4 ! (JK_AXES_DIGIT - 2)))"
proof -
  have p: "isBaseCellPentagon 4"
    by (simp add: isBaseCellPentagon_def)
  have "face (baseCellVertexRotations ! 4 ! (IK_AXES_DIGIT - 2)) = 1"
    and "face (baseCellVertexRotations ! 4 ! (JK_AXES_DIGIT - 2)) = 0"
    by (simp_all add: row_4 IK_AXES_DIGIT_def JK_AXES_DIGIT_def)
  with p crossing_corrections_exclusive [OF p, of 1] show ?thesis by simp
qed

text \<open>
  C9. For every canonical vertex \<open>v\<close> in \<open>[0,5]\<close> and every rotation count \<open>R\<close> in
  \<open>[0,5]\<close>, the rotation arithmetic of \<open>vertexNumForDirection\<close> for hexagons, applied
  with \<open>R\<close> and then with \<open>(6 - R) mod 6\<close>, gives \<open>v\<close> back.
\<close>

theorem rotateVertexNum_round_trip:
  assumes "0 \<le> v" and "v \<le> 5" and "0 \<le> R" and "R \<le> 5"
  shows "rotateVertexNum NUM_HEX_VERTS (rotateVertexNum NUM_HEX_VERTS v R) ((6 - R) mod 6) = v"
proof -
  have first: "rotateVertexNum NUM_HEX_VERTS v R = (v + 6 - R) mod 6"
    using assms by (simp add: rotateVertexNum_mod NUM_HEX_VERTS_def)
  have "0 \<le> (v + 6 - R) mod 6" and "(6 - R) mod 6 \<le> 6"
    by (simp_all add: less_imp_le)
  then have "rotateVertexNum NUM_HEX_VERTS ((v + 6 - R) mod 6) ((6 - R) mod 6) =
      ((v + 6 - R) mod 6 + 6 - (6 - R) mod 6) mod 6"
    by (simp add: rotateVertexNum_mod NUM_HEX_VERTS_def)
  also have "\<dots> = ((v + 6 - R) mod 6 - (6 - R) mod 6 + 6) mod 6"
    by (simp add: algebra_simps)
  also have "\<dots> = ((v + 6 - R) mod 6 - (6 - R) mod 6) mod 6"
    by (rule mod_add_self2)
  also have "\<dots> = ((v + 6 - R) - (6 - R)) mod 6"
    by (rule mod_diff_eq)
  also have "\<dots> = v"
    using assms by simp
  finally show ?thesis
    using first by simp
qed

text \<open>Vertex 3 rotated by 2 is vertex 1, and vertex 1 rotated by 4 is vertex 3.\<close>

theorem rotateVertexNum_round_trip_witness:
  "(0::int) \<le> 3 \<and> (3::int) \<le> 5 \<and> (0::int) \<le> 2 \<and> (2::int) \<le> 5
   \<and> rotateVertexNum NUM_HEX_VERTS 3 2 = 1
   \<and> rotateVertexNum NUM_HEX_VERTS 1 ((6 - 2) mod 6) = 3"
  using rotateVertexNum_round_trip [of 3 2]
  by (simp add: rotateVertexNum_def NUM_HEX_VERTS_def signed_modulo_int_def)

end
